theory Spec2Isabelle
  imports Complex_Main "HOL-Library.Multiset"
begin

section \<open>Python values\<close>

text \<open>
  The development embeds \<^verbatim>\<open>ocr_json2text_line.py\<close>.  A Python \<^verbatim>\<open>str\<close> is a list of
  Unicode code points, a Python \<^verbatim>\<open>int\<close> is an \<^typ>\<open>int\<close>, and a Python \<^verbatim>\<open>float\<close> is
  idealised as a \<^typ>\<open>real\<close>: finite and without rounding.  A value that \<^verbatim>\<open>json.load\<close>
  can produce is a \<open>json\<close>; a dictionary is an association list, its keys distinct, in
  insertion order.
\<close>

type_synonym pystr = "nat list"

definition py_str :: "string \<Rightarrow> pystr" where
  "py_str s = map of_char s"

datatype json =
    JNull
  | JBool bool
  | JInt int
  | JFloat real
  | JStr pystr
  | JList "json list"
  | JDict "(pystr \<times> json) list"

datatype pyerr =
    KeyError | TypeError | ValueError | AttributeError | IndexError | ZeroDivisionError

text \<open>
  The conversions \<^verbatim>\<open>int(s)\<close> and \<^verbatim>\<open>float(s)\<close> of a string belong to the Python runtime.
  They are parameters of the model: \<open>None\<close> stands for the \<^verbatim>\<open>ValueError\<close> they raise.
\<close>

record builtins =
  str_to_int :: "pystr \<Rightarrow> int option"
  str_to_float :: "pystr \<Rightarrow> real option"

text \<open>\<^verbatim>\<open>str.isspace\<close> of one code point, as \<^verbatim>\<open>str.strip()\<close> uses it.\<close>

definition is_space :: "nat \<Rightarrow> bool" where
  "is_space c = ((9 \<le> c \<and> c \<le> 13) \<or> (28 \<le> c \<and> c \<le> 32) \<or> c = 133 \<or> c = 160
     \<or> c = 5760 \<or> (8192 \<le> c \<and> c \<le> 8202) \<or> c = 8232 \<or> c = 8233 \<or> c = 8239
     \<or> c = 8287 \<or> c = 12288)"

definition strip :: "pystr \<Rightarrow> pystr" where
  "strip s = rev (dropWhile is_space (rev (dropWhile is_space s)))"

text \<open>\<^verbatim>\<open>s.split(sep)\<close> for a separator of one character.\<close>

fun split_on :: "nat \<Rightarrow> pystr \<Rightarrow> pystr list" where
  "split_on sep [] = [[]]"
| "split_on sep (c # cs) =
     (if c = sep then [] # split_on sep cs
      else (case split_on sep cs of [] \<Rightarrow> [[c]] | p # ps \<Rightarrow> (c # p) # ps))"

text \<open>\<^verbatim>\<open>min(xs)\<close> and \<^verbatim>\<open>max(xs)\<close>: a \<^verbatim>\<open>ValueError\<close> on an empty sequence.\<close>

fun py_min :: "'a::linorder list \<Rightarrow> pyerr + 'a" where
  "py_min [] = Inl ValueError"
| "py_min (v # vs) = Inr (fold min vs v)"

fun py_max :: "'a::linorder list \<Rightarrow> pyerr + 'a" where
  "py_max [] = Inl ValueError"
| "py_max (v # vs) = Inr (fold max vs v)"

text \<open>
  An instance of the conversions for the examples: \<^verbatim>\<open>int(s)\<close> on ASCII strings
  (surrounding white space, a sign, decimal digits, single underscores between digits),
  and \<^verbatim>\<open>float(s)\<close> on the same strings only.  The theorems about the program hold for
  every \<open>builtins\<close>; the examples convert no string but the tokens of a bounding box.
\<close>

fun parse_digits :: "pystr \<Rightarrow> nat \<Rightarrow> bool \<Rightarrow> nat option" where
  "parse_digits [] acc prev = (if prev then Some acc else None)"
| "parse_digits (c # cs) acc prev =
     (if 48 \<le> c \<and> c \<le> 57 then parse_digits cs (10 * acc + (c - 48)) True
      else if c = 95 \<and> prev \<and> cs \<noteq> [] then parse_digits cs acc False
      else None)"

definition int_ascii :: "pystr \<Rightarrow> int option" where
  "int_ascii s =
     (case strip s of
        [] \<Rightarrow> None
      | c # cs \<Rightarrow>
          if c = 45 then map_option (\<lambda>n. - int n) (parse_digits cs 0 False)
          else if c = 43 then map_option int (parse_digits cs 0 False)
          else map_option int (parse_digits (c # cs) 0 False))"

definition ascii_builtins :: builtins where
  "ascii_builtins =
     \<lparr>str_to_int = int_ascii, str_to_float = (\<lambda>s. map_option real_of_int (int_ascii s))\<rparr>"

section \<open>Geometry model\<close>

record BoundingBox =
  bb_x :: int
  bb_y :: int
  bb_width :: int
  bb_height :: int

definition zero_box :: BoundingBox where
  "zero_box = \<lparr>bb_x = 0, bb_y = 0, bb_width = 0, bb_height = 0\<rparr>"

text \<open>\<^verbatim>\<open>[p.strip() for p in bbox_str.split(',') if p.strip()]\<close>\<close>

definition box_parts :: "pystr \<Rightarrow> pystr list" where
  "box_parts s = filter (\<lambda>p. p \<noteq> []) (map strip (split_on 44 s))"

text \<open>\<^verbatim>\<open>map(int, parts)\<close>, consumed from left to right.\<close>

fun ints_of :: "builtins \<Rightarrow> pystr list \<Rightarrow> pyerr + int list" where
  "ints_of bi [] = Inr []"
| "ints_of bi (p # ps) =
     (case str_to_int bi p of
        None \<Rightarrow> Inl ValueError
      | Some n \<Rightarrow> (case ints_of bi ps of Inl e \<Rightarrow> Inl e | Inr ns \<Rightarrow> Inr (n # ns)))"

text \<open>
  The body of the \<^verbatim>\<open>try\<close> block of \<^verbatim>\<open>BoundingBox.from_string\<close>: \<open>Inr None\<close> when control
  falls out of the block without a \<^verbatim>\<open>return\<close>.
\<close>

definition from_string_try :: "builtins \<Rightarrow> pystr \<Rightarrow> pyerr + BoundingBox option" where
  "from_string_try bi s =
     (let parts = box_parts s in
      if length parts = 4 then
        (case ints_of bi parts of
           Inl e \<Rightarrow> Inl e
         | Inr [x, y, w, h] \<Rightarrow> Inr (Some \<lparr>bb_x = x, bb_y = y, bb_width = w, bb_height = h\<rparr>)
         | Inr _ \<Rightarrow> Inl ValueError)
      else if length parts = 8 then
        (case ints_of bi [parts ! 0, parts ! 2, parts ! 4, parts ! 6] of
           Inl e \<Rightarrow> Inl e
         | Inr xs \<Rightarrow>
            (case ints_of bi [parts ! 1, parts ! 3, parts ! 5, parts ! 7] of
               Inl e \<Rightarrow> Inl e
             | Inr ys \<Rightarrow>
                (case (py_min xs, py_max xs, py_min ys, py_max ys) of
                   (Inr min_x, Inr max_x, Inr min_y, Inr max_y) \<Rightarrow>
                     Inr (Some \<lparr>bb_x = min_x, bb_y = min_y,
                                bb_width = max_x - min_x, bb_height = max_y - min_y\<rparr>)
                 | _ \<Rightarrow> Inl ValueError)))
      else Inr None)"

text \<open>
  \<^verbatim>\<open>BoundingBox.from_string\<close>.  The argument is whatever the caller read from the
  document; \<^verbatim>\<open>bbox_str.split\<close> raises \<^verbatim>\<open>AttributeError\<close> on anything but a string, and
  the handler catches \<^verbatim>\<open>ValueError\<close> and \<^verbatim>\<open>IndexError\<close> only.
\<close>

definition from_string :: "builtins \<Rightarrow> json \<Rightarrow> pyerr + BoundingBox" where
  "from_string bi v =
     (case v of
        JStr s \<Rightarrow>
          (case from_string_try bi s of
             Inl e \<Rightarrow> (if e = ValueError \<or> e = IndexError then Inr zero_box else Inl e)
           | Inr (Some bb) \<Rightarrow> Inr bb
           | Inr None \<Rightarrow> Inr zero_box)
      | _ \<Rightarrow> Inl AttributeError)"

section \<open>Reading the document\<close>

text \<open>Sequencing of computations that may raise: the first exception ends the computation.\<close>

fun py_bind :: "pyerr + 'a \<Rightarrow> ('a \<Rightarrow> pyerr + 'b) \<Rightarrow> pyerr + 'b" where
  "py_bind (Inl e) f = Inl e"
| "py_bind (Inr v) f = f v"

fun py_map :: "('a \<Rightarrow> pyerr + 'b) \<Rightarrow> 'a list \<Rightarrow> pyerr + 'b list" where
  "py_map f [] = Inr []"
| "py_map f (v # vs) = py_bind (f v) (\<lambda>w. py_bind (py_map f vs) (\<lambda>ws. Inr (w # ws)))"

text \<open>Truth value testing of a value (\<^verbatim>\<open>not v\<close>, \<^verbatim>\<open>v or d\<close>).\<close>

fun truthy :: "json \<Rightarrow> bool" where
  "truthy JNull = False"
| "truthy (JBool b) = b"
| "truthy (JInt n) = (n \<noteq> 0)"
| "truthy (JFloat r) = (r \<noteq> 0)"
| "truthy (JStr s) = (s \<noteq> [])"
| "truthy (JList vs) = (vs \<noteq> [])"
| "truthy (JDict kvs) = (kvs \<noteq> [])"

definition py_or :: "json \<Rightarrow> json \<Rightarrow> json" where
  "py_or v d = (if truthy v then v else d)"

text \<open>\<^verbatim>\<open>d.get(k, default)\<close>: only a dictionary has the method.\<close>

fun py_get :: "json \<Rightarrow> pystr \<Rightarrow> json \<Rightarrow> pyerr + json" where
  "py_get (JDict kvs) k d = Inr (case map_of kvs k of None \<Rightarrow> d | Some v \<Rightarrow> v)"
| "py_get _ k d = Inl AttributeError"

text \<open>The items a \<^verbatim>\<open>for\<close> loop or a comprehension draws from a value.\<close>

fun py_iter :: "json \<Rightarrow> pyerr + json list" where
  "py_iter (JList vs) = Inr vs"
| "py_iter (JStr s) = Inr (map (\<lambda>c. JStr [c]) s)"
| "py_iter (JDict kvs) = Inr (map (\<lambda>kv. JStr (fst kv)) kvs)"
| "py_iter _ = Inl TypeError"

text \<open>\<^verbatim>\<open>int(v)\<close> and \<^verbatim>\<open>float(v)\<close>; a float is truncated towards zero.\<close>

fun py_int :: "builtins \<Rightarrow> json \<Rightarrow> pyerr + int" where
  "py_int bi (JBool b) = Inr (if b then 1 else 0)"
| "py_int bi (JInt n) = Inr n"
| "py_int bi (JFloat r) = Inr (if 0 \<le> r then \<lfloor>r\<rfloor> else \<lceil>r\<rceil>)"
| "py_int bi (JStr s) = (case str_to_int bi s of None \<Rightarrow> Inl ValueError | Some n \<Rightarrow> Inr n)"
| "py_int bi _ = Inl TypeError"

fun py_float :: "builtins \<Rightarrow> json \<Rightarrow> pyerr + real" where
  "py_float bi (JBool b) = Inr (if b then 1 else 0)"
| "py_float bi (JInt n) = Inr (real_of_int n)"
| "py_float bi (JFloat r) = Inr r"
| "py_float bi (JStr s) = (case str_to_float bi s of None \<Rightarrow> Inl ValueError | Some r \<Rightarrow> Inr r)"
| "py_float bi _ = Inl TypeError"

definition py_div :: "real \<Rightarrow> real \<Rightarrow> pyerr + real" where
  "py_div a b = (if b = 0 then Inl ZeroDivisionError else Inr (a / b))"

text \<open>\<^verbatim>\<open>round(x)\<close> rounds half to even; \<^verbatim>\<open>round(x, n)\<close> does so at the n-th decimal.\<close>

definition py_round :: "real \<Rightarrow> int" where
  "py_round r =
     (let f = \<lfloor>r\<rfloor>; d = r - real_of_int f in
      if d < 1 / 2 then f else if 1 / 2 < d then f + 1 else if even f then f else f + 1)"

definition py_round_to :: "real \<Rightarrow> nat \<Rightarrow> real" where
  "py_round_to r n = real_of_int (py_round (r * 10 ^ n)) / 10 ^ n"

text \<open>
  The dataclasses.  Python does not check the annotations, so a field read from the
  document with \<^verbatim>\<open>data.get\<close> holds whatever value the document has.  The field
  \<^verbatim>\<open>style\<close> of a line (\<^verbatim>\<open>str\<close> of a value, which cannot raise) is read by no function of
  the file and is left out.
\<close>

record Word =
  word :: json
  w_boundingBox :: BoundingBox

record Line =
  line_text :: json
  words :: "Word list"
  l_boundingBox :: BoundingBox
  text_height :: int

record Region =
  lang :: json
  dir :: json
  lines :: "Line list"
  r_boundingBox :: BoundingBox

definition default_box :: json where
  "default_box = JStr (py_str ''0,0,0,0'')"

definition Word_from_dict :: "builtins \<Rightarrow> json \<Rightarrow> pyerr + Word" where
  "Word_from_dict bi data =
     py_bind (py_get data (py_str ''word'') (JStr [])) (\<lambda>w.
     py_bind (py_get data (py_str ''boundingBox'') default_box) (\<lambda>b.
     py_bind (from_string bi b) (\<lambda>bb.
     Inr \<lparr>word = w, w_boundingBox = bb\<rparr>)))"

definition Line_from_dict :: "builtins \<Rightarrow> json \<Rightarrow> pyerr + Line" where
  "Line_from_dict bi data =
     py_bind (py_get data (py_str ''words'') (JList [])) (\<lambda>wd.
     py_bind (py_iter wd) (\<lambda>items.
     py_bind (py_map (Word_from_dict bi) items) (\<lambda>ws.
     py_bind (py_get data (py_str ''text'') (JStr [])) (\<lambda>t.
     py_bind (py_get data (py_str ''boundingBox'') default_box) (\<lambda>b.
     py_bind (from_string bi b) (\<lambda>bb.
     py_bind (py_get data (py_str ''text_height'') (JInt 0)) (\<lambda>th.
     py_bind (py_int bi (py_or th (JInt 0))) (\<lambda>h.
     Inr \<lparr>line_text = t, words = ws, l_boundingBox = bb, text_height = h\<rparr>))))))))"

definition Region_from_dict :: "builtins \<Rightarrow> json \<Rightarrow> pyerr + Region" where
  "Region_from_dict bi data =
     py_bind (py_get data (py_str ''lines'') (JList [])) (\<lambda>ld.
     py_bind (py_iter ld) (\<lambda>items.
     py_bind (py_map (Line_from_dict bi) items) (\<lambda>ls.
     py_bind (py_get data (py_str ''lang'') (JStr [])) (\<lambda>la.
     py_bind (py_get data (py_str ''dir'') (JStr (py_str ''h''))) (\<lambda>d.
     py_bind (py_get data (py_str ''boundingBox'') default_box) (\<lambda>b.
     py_bind (from_string bi b) (\<lambda>bb.
     Inr \<lparr>lang = la, dir = d, lines = ls, r_boundingBox = bb\<rparr>)))))))"

section \<open>Layout constant estimator\<close>

text \<open>\<^verbatim>\<open>_contains_cjk\<close>: one code point lies in a CJK Unified Ideographs block.\<close>

definition is_cjk :: "nat \<Rightarrow> bool" where
  "is_cjk code =
     ((0x4E00 \<le> code \<and> code \<le> 0x9FFF) \<or>
      (0x3400 \<le> code \<and> code \<le> 0x4DBF) \<or>
      (0x20000 \<le> code \<and> code \<le> 0x2A6DF) \<or>
      (0x2A700 \<le> code \<and> code \<le> 0x2B73F) \<or>
      (0x2B740 \<le> code \<and> code \<le> 0x2B81F) \<or>
      (0x2B820 \<le> code \<and> code \<le> 0x2CEAF))"

text \<open>
  The loop of \<^verbatim>\<open>_contains_cjk\<close> over the items of its argument: \<^verbatim>\<open>ord\<close> raises
  \<^verbatim>\<open>TypeError\<close> on anything but a string of length one, and the loop returns at the first
  ideograph.
\<close>

fun cjk_loop :: "json list \<Rightarrow> pyerr + bool" where
  "cjk_loop [] = Inr False"
| "cjk_loop (JStr [code] # vs) = (if is_cjk code then Inr True else cjk_loop vs)"
| "cjk_loop (_ # vs) = Inl TypeError"

definition contains_cjk :: "json \<Rightarrow> pyerr + bool" where
  "contains_cjk s = py_bind (py_iter s) cjk_loop"

text \<open>\<^verbatim>\<open>statistics.median\<close>: \<open>None\<close> is its \<^verbatim>\<open>StatisticsError\<close> on no data.\<close>

definition median :: "real list \<Rightarrow> real option" where
  "median values =
     (let data = sort values; n = length data in
      if n = 0 then None
      else if n mod 2 = 1 then Some (data ! (n div 2))
      else Some ((data ! (n div 2 - 1) + data ! (n div 2)) / 2))"

definition robust_median :: "real list \<Rightarrow> real" where
  "robust_median values =
     (case values of
        [] \<Rightarrow> 0
      | v # vs \<Rightarrow> (case median values of Some m \<Rightarrow> m | None \<Rightarrow> v))"

text \<open>
  The calibration store is the content of the file \<^verbatim>\<open>ocr_layout_constants.json\<close>:
  \<open>None\<close> when the file is missing, unreadable or not JSON.
\<close>

definition load_constants :: "json option \<Rightarrow> json" where
  "load_constants st = (case st of None \<Rightarrow> JDict [] | Some v \<Rightarrow> v)"

text \<open>
  What the file system does to the write of \<^verbatim>\<open>_save_constants\<close>, which swallows
  \<^verbatim>\<open>OSError\<close>: the file is written; or it cannot be opened and stays as it is; or the
  write fails after the file was truncated, which leaves no JSON document.
\<close>

datatype save_outcome = Saved | OpenFailed | WriteFailed

definition save_constants :: "save_outcome \<Rightarrow> json option \<Rightarrow> json \<Rightarrow> json option" where
  "save_constants io st constants =
     (case io of Saved \<Rightarrow> Some constants | OpenFailed \<Rightarrow> st | WriteFailed \<Rightarrow> None)"

text \<open>The samples one line and one word contribute.\<close>

definition line_height_sample :: "Line \<Rightarrow> real list" where
  "line_height_sample l =
     (if bb_height (l_boundingBox l) > 0 then [real_of_int (bb_height (l_boundingBox l))]
      else if text_height l \<noteq> 0 then [real_of_int (text_height l)]
      else [])"

definition word_sample :: "Word \<Rightarrow> pyerr + real list" where
  "word_sample w =
     (if \<not> truthy (word w) then Inr []
      else py_bind (contains_cjk (word w)) (\<lambda>cjk.
        Inr (if cjk \<and> bb_height (w_boundingBox w) > 0
             then [real_of_int (bb_height (w_boundingBox w))] else [])))"

definition line_samples :: "Line \<Rightarrow> pyerr + (real list \<times> real list)" where
  "line_samples l =
     py_bind (py_map word_sample (words l)) (\<lambda>cs. Inr (concat cs, line_height_sample l))"

text \<open>The sampling loop: \<open>(char_heights, line_heights)\<close>.\<close>

definition collect_samples :: "Region list \<Rightarrow> pyerr + (real list \<times> real list)" where
  "collect_samples regions =
     py_bind (py_map line_samples (concat (map lines regions))) (\<lambda>ps.
       Inr (concat (map fst ps), concat (map snd ps)))"

text \<open>
  The history read from the loaded constants:
  \<open>(prev_char_height, prev_multiplier, prev_char_n, prev_line_n)\<close>.
\<close>

definition read_history :: "builtins \<Rightarrow> json \<Rightarrow> pyerr + (real \<times> real \<times> int \<times> int)" where
  "read_history bi loaded =
     py_bind (py_get loaded (py_str ''char_height'') (JInt 0)) (\<lambda>ch.
     py_bind (py_float bi (py_or ch (JInt 0))) (\<lambda>prev_char_height.
     py_bind (py_get loaded (py_str ''line_height_multiplier'') (JInt 0)) (\<lambda>lm.
     py_bind (py_float bi (py_or lm (JInt 0))) (\<lambda>prev_multiplier.
     py_bind (py_get loaded (py_str ''sample_counts'') (JDict [])) (\<lambda>sc.
       let prev_counts = (case sc of JDict kvs \<Rightarrow> sc | _ \<Rightarrow> JDict []) in
     py_bind (py_get prev_counts (py_str ''char'') (JInt 0)) (\<lambda>c.
     py_bind (py_int bi c) (\<lambda>prev_char_n.
     py_bind (py_get prev_counts (py_str ''line'') (JInt 0)) (\<lambda>l.
     py_bind (py_int bi l) (\<lambda>prev_line_n.
     Inr (prev_char_height, prev_multiplier, prev_char_n, prev_line_n))))))))))"

text \<open>
  The blend of a current value with the history (the two \<^verbatim>\<open>if prev_... > 0\<close> blocks):
  \<open>n\<close> current samples, \<open>prev_n\<close> historical ones, \<open>sparse\<close> the sparsity flag.
\<close>

definition blend :: "real \<Rightarrow> real \<Rightarrow> int \<Rightarrow> int \<Rightarrow> bool \<Rightarrow> pyerr + real" where
  "blend current prev n prev_n sparse =
     (if prev > 0 then
        (if sparse \<or> current \<le> 0 then Inr prev
         else py_bind (py_div (real_of_int n) (real_of_int (n + prev_n) + 1 / 10 ^ 6)) (\<lambda>q.
           let alpha = min (7 / 10) q in
           Inr (alpha * current + (1 - alpha) * prev)))
      else Inr current)"

text \<open>
  The estimates of the current document, from the samples \<open>char_heights\<close> and
  \<open>line_heights\<close>: \<^verbatim>\<open>current_char_height\<close>, \<^verbatim>\<open>current_line_height\<close> and
  \<^verbatim>\<open>current_multiplier\<close>.
\<close>

definition current_char_height :: "real list \<Rightarrow> real" where
  "current_char_height char_heights =
     (if length char_heights \<ge> 5 then robust_median char_heights else 0)"

definition current_line_height :: "real list \<Rightarrow> real" where
  "current_line_height line_heights =
     (if length line_heights \<ge> 3 then robust_median line_heights else 0)"

definition current_multiplier :: "real list \<Rightarrow> real list \<Rightarrow> real" where
  "current_multiplier char_heights line_heights =
     (if current_char_height char_heights > 0 \<and> current_line_height line_heights > 0
      then robust_median
             (map (\<lambda>lh. lh / current_char_height char_heights)
                (filter (\<lambda>lh. lh > 0) line_heights))
      else 0)"

text \<open>
  \<^verbatim>\<open>estimate_layout_constants\<close>.  \<open>now\<close> is \<^verbatim>\<open>int(time.time())\<close>, \<open>io\<close> the outcome of the
  write, \<open>st\<close> the store before the call.  The result is the returned triple together with
  the store after the call.
\<close>

definition estimate_layout_constants ::
  "builtins \<Rightarrow> int \<Rightarrow> save_outcome \<Rightarrow> json option \<Rightarrow> Region list
     \<Rightarrow> pyerr + ((real \<times> real \<times> (int \<times> int)) \<times> json option)" where
  "estimate_layout_constants bi now io st regions =
     py_bind (collect_samples regions) (\<lambda>(char_heights, line_heights).
     py_bind (read_history bi (load_constants st))
       (\<lambda>(prev_char_height, prev_multiplier, prev_char_n, prev_line_n).
       let char_n = int (length char_heights);
           line_n = int (length line_heights);
           sparse_char = (char_n < 5);
           sparse_line = (line_n < 3)
       in
     py_bind (blend (current_char_height char_heights) prev_char_height
                char_n prev_char_n sparse_char)
       (\<lambda>blended_char_height.
     py_bind (blend (current_multiplier char_heights line_heights) prev_multiplier
                line_n prev_line_n sparse_line)
       (\<lambda>blended_multiplier.
       let final_char_height = (if blended_char_height \<le> 0 then 32 else blended_char_height);
           defaulted_multiplier = (if blended_multiplier \<le> 0 then 3 / 2 else blended_multiplier);
           final_multiplier = max (12 / 10) (min 2 defaulted_multiplier);
           new_char_n = min 1000 (prev_char_n + char_n);
           new_line_n = min 1000 (prev_line_n + line_n);
           st' = save_constants io st
                   (JDict [(py_str ''char_height'', JFloat (py_round_to final_char_height 2)),
                           (py_str ''line_height_multiplier'',
                              JFloat (py_round_to final_multiplier 3)),
                           (py_str ''sample_counts'',
                              JDict [(py_str ''char'', JInt new_char_n),
                                     (py_str ''line'', JInt new_line_n)]),
                           (py_str ''updated_at'', JInt now)])
       in Inr ((final_char_height, final_multiplier, (char_n, line_n)), st')))))"

section \<open>Fragment clusterer\<close>

text \<open>
  A fragment is the dictionary \<^verbatim>\<open>{text, x, y, width, height}\<close>; the clusterer adds the key
  \<^verbatim>\<open>y_mid\<close> to each fragment it is given.
\<close>

record fragment =
  f_text :: pystr
  f_x :: int
  f_y :: int
  f_width :: int
  f_height :: int

record mfragment = fragment +
  f_y_mid :: real

definition with_y_mid :: "fragment \<Rightarrow> mfragment" where
  "with_y_mid frag =
     \<lparr>f_text = f_text frag, f_x = f_x frag, f_y = f_y frag, f_width = f_width frag,
      f_height = f_height frag,
      f_y_mid = real_of_int (f_y frag) + real_of_int (f_height frag) / 2\<rparr>"

definition same_line_threshold_ratio :: real where
  "same_line_threshold_ratio = 4 / 10"

text \<open>
  One round of the clustering loop on the state
  \<open>(groups, current_group, current_mid)\<close>.
\<close>

fun group_step ::
  "real \<Rightarrow> mfragment list list \<times> mfragment list \<times> real option \<Rightarrow> mfragment
     \<Rightarrow> mfragment list list \<times> mfragment list \<times> real option" where
  "group_step threshold (groups, current_group, current_mid) item =
     (case current_mid of
        None \<Rightarrow> (groups, [item], Some (f_y_mid item))
      | Some mid \<Rightarrow>
          if current_group = [] then (groups, [item], Some (f_y_mid item))
          else if \<bar>f_y_mid item - mid\<bar> \<le> threshold then
            (let grown = current_group @ [item] in
             (groups, grown,
              Some ((mid * (real (length grown) - 1) + f_y_mid item) / real (length grown))))
          else (groups @ [sort_key f_x current_group], [item], Some (f_y_mid item)))"

definition group_fragments_by_line ::
  "fragment list \<Rightarrow> real \<Rightarrow> real \<Rightarrow> mfragment list list" where
  "group_fragments_by_line fragments line_spacing ratio =
     (if fragments = [] then []
      else
        (let sorted_fragments = sort_key f_y_mid (map with_y_mid fragments);
             threshold = max 1 (ratio * line_spacing)
         in case foldl (group_step threshold) ([], [], None) sorted_fragments of
              (groups, current_group, current_mid) \<Rightarrow>
                if current_group \<noteq> [] then groups @ [sort_key f_x current_group]
                else groups))"

section \<open>Spacing reconstructor\<close>

definition compute_row_indent_spaces ::
  "'a fragment_scheme list \<Rightarrow> int \<Rightarrow> real \<Rightarrow> pyerr + int" where
  "compute_row_indent_spaces row base_left char_height =
     (if row = [] then Inr 0
      else
        (let ch = (if char_height \<le> 0 then 32 else char_height) in
         py_bind (py_min (map f_x row)) (\<lambda>left_x.
           let indent_px = max 0 (left_x - base_left);
               spaces = py_round ((real_of_int indent_px / ch) * 2)
           in Inr (max 0 spaces))))"

definition compute_blank_lines_between ::
  "'a fragment_scheme list \<Rightarrow> 'a fragment_scheme list \<Rightarrow> real \<Rightarrow> pyerr + int" where
  "compute_blank_lines_between prev_row curr_row line_spacing =
     (if prev_row = [] \<or> curr_row = [] \<or> line_spacing \<le> 0 then Inr 0
      else
        py_bind (py_max (map (\<lambda>item. f_y item + f_height item) prev_row)) (\<lambda>prev_bottom.
        py_bind (py_min (map f_y curr_row)) (\<lambda>curr_top.
          let gap_px = max 0 (real_of_int (curr_top - prev_bottom));
              blanks = \<lfloor>gap_px / line_spacing\<rfloor>
          in Inr (max 0 blanks))))"

text \<open>One round of the loop of \<^verbatim>\<open>_join_fragments_with_spacing\<close> on \<open>(parts, prev_right)\<close>.\<close>

fun join_step ::
  "real \<Rightarrow> pystr list \<times> int option \<Rightarrow> 'a fragment_scheme \<Rightarrow> pystr list \<times> int option" where
  "join_step ch (parts, prev_right) frag =
     (case prev_right of
        None \<Rightarrow> (parts @ [f_text frag], Some (f_x frag + f_width frag))
      | Some right \<Rightarrow>
          (let gap_px = max 0 (f_x frag - right);
               spaces = py_round ((real_of_int gap_px / ch) * 2);
               spaced = (if spaces > 0 then parts @ [replicate (nat spaces) 32] else parts)
           in (spaced @ [f_text frag], Some (f_x frag + f_width frag))))"

definition join_fragments_with_spacing :: "'a fragment_scheme list \<Rightarrow> real \<Rightarrow> pystr" where
  "join_fragments_with_spacing row char_height =
     (if row = [] then []
      else
        (let ch = (if char_height \<le> 0 then 32 else char_height) in
         concat (fst (foldl (join_step ch) ([], None) row))))"

section \<open>Text line assembler\<close>

text \<open>
  \<^verbatim>\<open>_collect_horizontal_fragments\<close>.  A dataclass instance is true, so
  \<^verbatim>\<open>line.boundingBox or region.boundingBox\<close> is the line's box; \<^verbatim>\<open>line.text.strip\<close> raises
  \<^verbatim>\<open>AttributeError\<close> on a text that is true and not a string.
\<close>

definition line_fragment :: "Line \<Rightarrow> pyerr + fragment list" where
  "line_fragment l =
     (if \<not> truthy (line_text l) then Inr []
      else (case line_text l of
              JStr s \<Rightarrow>
                Inr [\<lparr>f_text = strip s, f_x = bb_x (l_boundingBox l), f_y = bb_y (l_boundingBox l),
                      f_width = bb_width (l_boundingBox l),
                      f_height = bb_height (l_boundingBox l)\<rparr>]
            | _ \<Rightarrow> Inl AttributeError))"

definition collect_horizontal_fragments :: "Region list \<Rightarrow> pyerr + fragment list" where
  "collect_horizontal_fragments regions =
     py_bind
       (py_map line_fragment
          (concat (map lines (filter (\<lambda>region. dir region = JStr (py_str ''h'')) regions))))
       (\<lambda>fs. Inr (concat fs))"

fun py_foldl :: "('s \<Rightarrow> 'a \<Rightarrow> pyerr + 's) \<Rightarrow> 's \<Rightarrow> 'a list \<Rightarrow> pyerr + 's" where
  "py_foldl f s [] = Inr s"
| "py_foldl f s (v # vs) = py_bind (f s v) (\<lambda>s'. py_foldl f s' vs)"

text \<open>One round of the loop over the rows on the state \<open>(text_lines, prev_row)\<close>.\<close>

fun row_step ::
  "real \<Rightarrow> int \<Rightarrow> real \<Rightarrow> pystr list \<times> mfragment list option \<Rightarrow> mfragment list
     \<Rightarrow> pyerr + (pystr list \<times> mfragment list option)" where
  "row_step line_spacing base_left char_height (text_lines, prev_row) row =
     py_bind
       (case prev_row of
          None \<Rightarrow> Inr text_lines
        | Some prev \<Rightarrow>
            py_bind (compute_blank_lines_between prev row line_spacing) (\<lambda>blanks.
              Inr (if blanks > 0 then text_lines @ replicate (nat blanks) [] else text_lines)))
       (\<lambda>text_lines'.
     py_bind (compute_row_indent_spaces row base_left char_height) (\<lambda>indent_spaces.
       let joined = join_fragments_with_spacing row char_height;
           stripped = strip joined
       in if stripped = [] then Inr (text_lines', prev_row)
          else Inr (text_lines' @ [replicate (nat indent_spaces) 32 @ stripped], Some row)))"

definition horizontal_text_lines :: "fragment list \<Rightarrow> real \<Rightarrow> real \<Rightarrow> pyerr + pystr list" where
  "horizontal_text_lines fragments char_height line_multiplier =
     (if fragments = [] then Inr []
      else
        (let line_spacing = max 1 (char_height * line_multiplier);
             grouped = group_fragments_by_line fragments line_spacing same_line_threshold_ratio;
             base_left = (case py_min (map f_x fragments) of Inr m \<Rightarrow> m | Inl e \<Rightarrow> 0)
         in py_bind (py_foldl (row_step line_spacing base_left char_height) ([], None) grouped)
              (\<lambda>(text_lines, prev_row). Inr text_lines)))"

definition vertical_line :: "Line \<Rightarrow> pyerr + pystr list" where
  "vertical_line l =
     (case py_or (line_text l) (JStr []) of
        JStr s \<Rightarrow> Inr (if strip s = [] then [] else [strip s])
      | _ \<Rightarrow> Inl AttributeError)"

definition vertical_text_lines :: "Region list \<Rightarrow> pyerr + pystr list" where
  "vertical_text_lines regions =
     (let vertical_regions =
            sort_key (\<lambda>r. bb_x (r_boundingBox r))
              (filter (\<lambda>r. dir r = JStr (py_str ''v'')) regions)
      in py_bind
           (py_map vertical_line
              (concat (map (\<lambda>region. sort_key (\<lambda>l. bb_x (l_boundingBox l)) (lines region))
                         vertical_regions)))
           (\<lambda>ts. Inr (concat ts)))"

definition convert_regions_to_text_lines ::
  "Region list \<Rightarrow> real \<Rightarrow> real \<Rightarrow> pyerr + pystr list" where
  "convert_regions_to_text_lines regions char_height line_multiplier =
     py_bind (collect_horizontal_fragments regions) (\<lambda>fragments.
     py_bind (horizontal_text_lines fragments char_height line_multiplier) (\<lambda>text_lines.
     py_bind (vertical_text_lines regions) (\<lambda>vertical.
     Inr (text_lines @ vertical))))"

text \<open>\<^verbatim>\<open>'\n'.join(lines)\<close>\<close>

fun join_lines :: "pystr list \<Rightarrow> pystr" where
  "join_lines [] = []"
| "join_lines [l] = l"
| "join_lines (l # ls) = l @ [10] @ join_lines ls"

text \<open>
  What \<^verbatim>\<open>convert_json_to_text\<close> returns: the text, or the diagnostic string (the
  prefix for "conversion failed", then \<^verbatim>\<open>str(e)\<close>) built from the exception its handler
  caught.
\<close>

datatype converted = Text pystr | Failed pyerr

text \<open>The \<^verbatim>\<open>try\<close> block of \<^verbatim>\<open>convert_json_to_text\<close>, with the store it leaves.\<close>

definition convert_try ::
  "builtins \<Rightarrow> int \<Rightarrow> save_outcome \<Rightarrow> json option \<Rightarrow> (pystr \<times> json) list
     \<Rightarrow> (pyerr + pystr) \<times> json option" where
  "convert_try bi now io st ocr_json =
     (case map_of ocr_json (py_str ''Result'') of
        None \<Rightarrow> (Inl ValueError, st)
      | Some result \<Rightarrow>
          (case py_bind (py_get result (py_str ''regions'') (JList [])) (\<lambda>regions_data.
                py_bind (py_iter regions_data) (py_map (Region_from_dict bi))) of
             Inl e \<Rightarrow> (Inl e, st)
           | Inr regions \<Rightarrow>
               (case estimate_layout_constants bi now io st regions of
                  Inl e \<Rightarrow> (Inl e, st)
                | Inr ((char_h, line_mul, counts), st') \<Rightarrow>
                    (case convert_regions_to_text_lines regions char_h line_mul of
                       Inl e \<Rightarrow> (Inl e, st')
                     | Inr text_lines \<Rightarrow> (Inr (join_lines text_lines), st')))))"

text \<open>
  \<^verbatim>\<open>convert_json_to_text\<close>: the handler catches \<^verbatim>\<open>KeyError\<close>, \<^verbatim>\<open>TypeError\<close> and
  \<^verbatim>\<open>ValueError\<close>; any other exception leaves the function.
\<close>

definition convert_json_to_text ::
  "builtins \<Rightarrow> int \<Rightarrow> save_outcome \<Rightarrow> json option \<Rightarrow> (pystr \<times> json) list
     \<Rightarrow> (pyerr + converted) \<times> json option" where
  "convert_json_to_text bi now io st ocr_json =
     (case convert_try bi now io st ocr_json of
        (Inr t, st') \<Rightarrow> (Inr (Text t), st')
      | (Inl e, st') \<Rightarrow>
          (if e = KeyError \<or> e = TypeError \<or> e = ValueError then (Inr (Failed e), st')
           else (Inl e, st')))"

section \<open>Example inputs\<close>

text \<open>Two rows of height 20, at \<open>y = 0\<close> and at \<open>y = 100\<close>: a gap of 80 pixels.\<close>

definition row_a :: "fragment list" where
  "row_a = [\<lparr>f_text = py_str ''A'', f_x = 0, f_y = 0, f_width = 40, f_height = 20\<rparr>]"
definition row_b :: "fragment list" where
  "row_b = [\<lparr>f_text = py_str ''B'', f_x = 0, f_y = 100, f_width = 40, f_height = 20\<rparr>]"


text \<open>Fragments of height 2 whose vertical midpoints are 1, 4, 7 and 2.\<close>

definition frag_a :: fragment where
  "frag_a = \<lparr>f_text = py_str ''a'', f_x = 0, f_y = 0, f_width = 10, f_height = 2\<rparr>"

definition frag_b :: fragment where
  "frag_b = \<lparr>f_text = py_str ''b'', f_x = 20, f_y = 3, f_width = 10, f_height = 2\<rparr>"

definition frag_c :: fragment where
  "frag_c = \<lparr>f_text = py_str ''c'', f_x = 40, f_y = 6, f_width = 10, f_height = 2\<rparr>"

definition frag_d :: fragment where
  "frag_d = \<lparr>f_text = py_str ''d'', f_x = 60, f_y = 1, f_width = 10, f_height = 2\<rparr>"

text \<open>
  A region of three lines of height 60; the first line has five words, each the ideograph
  U+4E2D in a box of height 40.  A region of one line without words.  A store as the
  estimator writes it: character height 30, multiplier 1.5, counts 5 and 3.
\<close>

definition cjk_word :: Word where
  "cjk_word = \<lparr>word = JStr [0x4E2D],
               w_boundingBox = \<lparr>bb_x = 0, bb_y = 0, bb_width = 40, bb_height = 40\<rparr>\<rparr>"

definition bare_line :: Line where
  "bare_line = \<lparr>line_text = JStr (py_str ''x''), words = [],
                l_boundingBox = \<lparr>bb_x = 0, bb_y = 0, bb_width = 200, bb_height = 60\<rparr>,
                text_height = 0\<rparr>"

definition cjk_line :: Line where
  "cjk_line = bare_line\<lparr>words := [cjk_word, cjk_word, cjk_word, cjk_word, cjk_word]\<rparr>"

definition cjk_region :: Region where
  "cjk_region = \<lparr>lang = JStr [], dir = JStr (py_str ''h''),
                 lines = [cjk_line, bare_line, bare_line], r_boundingBox = zero_box\<rparr>"

definition bare_region :: Region where
  "bare_region = \<lparr>lang = JStr [], dir = JStr (py_str ''h''),
                  lines = [bare_line], r_boundingBox = zero_box\<rparr>"

definition history_store :: json where
  "history_store =
     JDict [(py_str ''char_height'', JFloat 30),
            (py_str ''line_height_multiplier'', JFloat (3 / 2)),
            (py_str ''sample_counts'',
               JDict [(py_str ''char'', JInt 5), (py_str ''line'', JInt 3)]),
            (py_str ''updated_at'', JInt 0)]"

text \<open>A store whose counts, 998 and 999, are close to the cap of 1000.\<close>

definition near_full_store :: json where
  "near_full_store =
     JDict [(py_str ''char_height'', JFloat 30),
            (py_str ''line_height_multiplier'', JFloat (3 / 2)),
            (py_str ''sample_counts'',
               JDict [(py_str ''char'', JInt 998), (py_str ''line'', JInt 999)]),
            (py_str ''updated_at'', JInt 0)]"

text \<open>
  The blend as the specification words it: the weight is
  \<open>min(0.7, current_sample_count / (current_sample_count + historical_sample_count))\<close>.
\<close>

definition spec_blend :: "real \<Rightarrow> real \<Rightarrow> int \<Rightarrow> int \<Rightarrow> real" where
  "spec_blend current historical n prev_n =
     (let weight = min (7 / 10) (real_of_int n / real_of_int (n + prev_n))
      in weight * current + (1 - weight) * historical)"

section \<open>Properties of the geometry model\<close>

lemma ints_of_fail:
  "p \<in> set ps \<Longrightarrow> str_to_int bi p = None \<Longrightarrow> ints_of bi ps = Inl ValueError"
proof (induction ps)
  case Nil
  then show ?case by simp
next
  case (Cons q qs)
  show ?case
  proof (cases "str_to_int bi q")
    case None
    then show ?thesis by simp
  next
    case (Some n)
    with Cons.prems have "p \<in> set qs" by auto
    with Cons have "ints_of bi qs = Inl ValueError" by simp
    with Some show ?thesis by simp
  qed
qed

lemma ints_of_err: "ints_of bi ps = Inl e \<Longrightarrow> e = ValueError"
  by (induction ps arbitrary: e) (auto split: option.splits sum.splits)

lemma ints_of_length: "ints_of bi ps = Inr ns \<Longrightarrow> length ns = length ps"
  by (induction ps arbitrary: ns) (auto split: option.splits sum.splits)

lemma from_string_try_err: "from_string_try bi s = Inl e \<Longrightarrow> e = ValueError"
  by (auto simp: from_string_try_def Let_def simp del: ints_of.simps
      split: if_splits sum.splits list.splits prod.splits dest: ints_of_err)

lemma from_string_returns: "\<exists>bb. from_string bi (JStr s) = Inr bb"
  by (auto simp: from_string_def split: sum.splits option.splits dest: from_string_try_err)

lemma from_string_wrong_count:
  "length (box_parts s) \<noteq> 4 \<Longrightarrow> length (box_parts s) \<noteq> 8
     \<Longrightarrow> from_string bi (JStr s) = Inr zero_box"
  by (simp add: from_string_def from_string_try_def Let_def)

lemma eight_positions:
  assumes "length ps = 8" and "p \<in> set ps"
  shows "p \<in> set [ps ! 0, ps ! 2, ps ! 4, ps ! 6] \<or> p \<in> set [ps ! 1, ps ! 3, ps ! 5, ps ! 7]"
proof -
  from assms obtain i where i: "i < 8" "p = ps ! i"
    by (metis in_set_conv_nth)
  from i(1) have "i = 0 \<or> i = 1 \<or> i = 2 \<or> i = 3 \<or> i = 4 \<or> i = 5 \<or> i = 6 \<or> i = 7"
    by arith
  with i(2) show ?thesis by auto
qed

lemma from_string_bad_token:
  assumes "p \<in> set (box_parts s)" and "str_to_int bi p = None"
  shows "from_string bi (JStr s) = Inr zero_box"
proof -
  consider (four) "length (box_parts s) = 4" | (eight) "length (box_parts s) = 8"
    | (other) "length (box_parts s) \<noteq> 4" "length (box_parts s) \<noteq> 8" by blast
  then show ?thesis
  proof cases
    case four
    from assms have "ints_of bi (box_parts s) = Inl ValueError" by (rule ints_of_fail)
    with four show ?thesis by (simp add: from_string_def from_string_try_def Let_def)
  next
    case eight
    let ?xs = "[box_parts s ! 0, box_parts s ! 2, box_parts s ! 4, box_parts s ! 6]"
    let ?ys = "[box_parts s ! 1, box_parts s ! 3, box_parts s ! 5, box_parts s ! 7]"
    from eight assms(1) have "p \<in> set ?xs \<or> p \<in> set ?ys" by (rule eight_positions)
    then have "ints_of bi ?xs = Inl ValueError \<or> ints_of bi ?ys = Inl ValueError"
      using assms(2) ints_of_fail by blast
    moreover have "\<And>e. ints_of bi ?xs = Inl e \<Longrightarrow> e = ValueError" by (rule ints_of_err)
    ultimately have "from_string_try bi s = Inl ValueError"
      using eight
      by (auto simp: from_string_try_def Let_def simp del: ints_of.simps split: sum.splits)
    then show ?thesis by (simp add: from_string_def)
  next
    case other
    then show ?thesis by (rule from_string_wrong_count)
  qed
qed

lemma box_parts_empty: "box_parts [] = []"
  by (simp add: box_parts_def strip_def)

text \<open>
  Claim C2.  For every string \<open>s\<close>, \<^verbatim>\<open>BoundingBox.from_string(s)\<close> returns a box and raises
  nothing; it returns the sentinel \<open>(0, 0, 0, 0)\<close> when \<open>s\<close> is empty, when the number of
  usable tokens is neither 4 nor 8, and when a token is not an integer.
\<close>

theorem from_string_never_raises:
  "(\<exists>bb. from_string bi (JStr s) = Inr bb) \<and>
   (s = [] \<or> (length (box_parts s) \<noteq> 4 \<and> length (box_parts s) \<noteq> 8)
      \<or> (\<exists>p \<in> set (box_parts s). str_to_int bi p = None)
    \<longrightarrow> from_string bi (JStr s) = Inr zero_box)"
  using from_string_returns from_string_wrong_count from_string_bad_token box_parts_empty
  by (metis list.size(3) zero_neq_numeral)

lemma box_parts_three: "box_parts (py_str ''1,2,3'') = [[49], [50], [51]]"
  by (simp add: py_str_def box_parts_def strip_def is_space_def)

theorem from_string_never_raises_witness:
  "length (box_parts (py_str ''1,2,3'')) = 3 \<and>
   from_string ascii_builtins (JStr (py_str ''1,2,3'')) = Inr zero_box"
  using from_string_never_raises [of ascii_builtins "py_str ''1,2,3''"]
  by (simp add: box_parts_three)

lemma fold_min_le: "fold min vs (v::int) \<le> v"
proof (induction vs arbitrary: v)
  case Nil
  then show ?case by simp
next
  case (Cons a vs)
  have "fold min vs (min a v) \<le> min a v" by (rule Cons.IH)
  then show ?case by simp
qed

lemma fold_max_ge: "(v::int) \<le> fold max vs v"
proof (induction vs arbitrary: v)
  case Nil
  then show ?case by simp
next
  case (Cons a vs)
  have "max a v \<le> fold max vs (max a v)" by (rule Cons.IH)
  then show ?case by simp
qed

lemma py_min_le_py_max:
  "py_min vs = Inr lo \<Longrightarrow> py_max vs = Inr hi \<Longrightarrow> (lo::int) \<le> hi"
proof (cases vs)
  case Nil
  then show "py_min vs = Inr lo \<Longrightarrow> py_max vs = Inr hi \<Longrightarrow> lo \<le> hi" by simp
next
  case (Cons v ws)
  assume "py_min vs = Inr lo" "py_max vs = Inr hi"
  with Cons have "lo = fold min ws v" "hi = fold max ws v" by simp_all
  then show "lo \<le> hi" using fold_min_le [of ws v] fold_max_ge [of v ws] by linarith
qed

lemma from_string_try_eight:
  assumes "length (box_parts s) = 8" and "from_string_try bi s = Inr (Some bb)"
  shows "0 \<le> bb_width bb \<and> 0 \<le> bb_height bb"
  using assms
  by (auto simp: from_string_try_def Let_def simp del: ints_of.simps py_min.simps py_max.simps
      split: sum.splits dest: py_min_le_py_max)

lemma from_string_try_four:
  assumes "length (box_parts s) = 4" and "from_string_try bi s = Inr (Some bb)"
  shows "\<exists>x y w h. ints_of bi (box_parts s) = Inr [x, y, w, h]
           \<and> bb = \<lparr>bb_x = x, bb_y = y, bb_width = w, bb_height = h\<rparr>"
  using assms
  by (auto simp: from_string_try_def Let_def simp del: ints_of.simps
      split: sum.splits list.splits)

text \<open>
  Claim C9, amended.  A box returned by \<^verbatim>\<open>BoundingBox.from_string\<close> has width and height
  at least 0, except when the string has exactly four usable tokens that are all integers:
  then the box is the four integers as they stand, whatever their signs.
\<close>

theorem from_string_dimensions:
  assumes "from_string bi (JStr s) = Inr bb"
  shows "case ints_of bi (box_parts s) of
           Inr [x, y, w, h] \<Rightarrow> bb = \<lparr>bb_x = x, bb_y = y, bb_width = w, bb_height = h\<rparr>
         | _ \<Rightarrow> 0 \<le> bb_width bb \<and> 0 \<le> bb_height bb"
proof -
  consider (four) "length (box_parts s) = 4" | (eight) "length (box_parts s) = 8"
    | (other) "length (box_parts s) \<noteq> 4" "length (box_parts s) \<noteq> 8" by blast
  then show ?thesis
  proof cases
    case four
    show ?thesis
    proof (cases "from_string_try bi s")
      case (Inl e)
      then have "e = ValueError" by (rule from_string_try_err)
      with Inl assms have bb: "bb = zero_box" by (simp add: from_string_def)
      from Inl four have "\<exists>e'. ints_of bi (box_parts s) = Inl e'"
        using ints_of_length [of bi "box_parts s"]
        by (auto simp: from_string_try_def Let_def simp del: ints_of.simps
            split: sum.splits list.splits)
      with bb show ?thesis by (auto simp: zero_box_def)
    next
      case (Inr r)
      with four have "\<exists>b. r = Some b" by (auto simp: from_string_try_def Let_def
            simp del: ints_of.simps split: sum.splits list.splits)
      then obtain b where r: "r = Some b" by blast
      with Inr assms have "b = bb" by (simp add: from_string_def)
      with Inr r four from_string_try_four [of s bi bb] show ?thesis by auto
    qed
  next
    case eight
    have nn: "0 \<le> bb_width bb \<and> 0 \<le> bb_height bb"
    proof (cases "from_string_try bi s")
      case (Inl e)
      then have "e = ValueError" by (rule from_string_try_err)
      with Inl assms show ?thesis by (auto simp: from_string_def zero_box_def)
    next
      case (Inr r)
      show ?thesis
      proof (cases r)
        case None
        with Inr assms show ?thesis by (auto simp: from_string_def zero_box_def)
      next
        case (Some b)
        with Inr assms have "b = bb" by (simp add: from_string_def)
        with Inr Some eight show ?thesis using from_string_try_eight by blast
      qed
    qed
    have "\<And>ns. ints_of bi (box_parts s) = Inr ns \<Longrightarrow> length ns = 8"
      using eight ints_of_length by fastforce
    with nn show ?thesis by (auto split: sum.splits list.splits)
  next
    case other
    then have bb: "bb = zero_box" using assms from_string_wrong_count by fastforce
    have "\<And>ns. ints_of bi (box_parts s) = Inr ns \<Longrightarrow> length ns \<noteq> 4"
      using other ints_of_length by fastforce
    with bb show ?thesis by (auto simp: zero_box_def split: sum.splits list.splits)
  qed
qed

lemma box_parts_negative:
  "box_parts (py_str ''0,0,-5,-3'') = [[48], [48], [45, 53], [45, 51]]"
  by (simp add: py_str_def box_parts_def strip_def is_space_def)

lemma ints_of_negative:
  "ints_of ascii_builtins [[48], [48], [45, 53], [45, 51]] = Inr [0, 0, - 5, - 3]"
  by (simp add: ascii_builtins_def int_ascii_def strip_def is_space_def)

theorem from_string_dimensions_witness:
  "from_string ascii_builtins (JStr (py_str ''0,0,-5,-3''))
     = Inr \<lparr>bb_x = 0, bb_y = 0, bb_width = - 5, bb_height = - 3\<rparr>"
proof -
  obtain bb where bb: "from_string ascii_builtins (JStr (py_str ''0,0,-5,-3'')) = Inr bb"
    using from_string_returns by blast
  from from_string_dimensions [OF bb]
  have "bb = \<lparr>bb_x = 0, bb_y = 0, bb_width = - 5, bb_height = - 3\<rparr>"
    by (simp add: box_parts_negative ints_of_negative del: ints_of.simps)
  with bb show ?thesis by simp
qed

text \<open>
  Claim C9 as stated fails: the four-token string \<^verbatim>\<open>"0,0,-5,-3"\<close> yields a box of width
  \<open>-5\<close> and height \<open>-3\<close>.
\<close>

theorem from_string_negative_counterexample:
  "from_string ascii_builtins (JStr (py_str ''0,0,-5,-3''))
     = Inr \<lparr>bb_x = 0, bb_y = 0, bb_width = - 5, bb_height = - 3\<rparr>
   \<and> bb_width \<lparr>bb_x = 0, bb_y = 0, bb_width = - 5, bb_height = - 3\<rparr> < 0
   \<and> bb_height \<lparr>bb_x = 0, bb_y = 0, bb_width = - 5, bb_height = - 3\<rparr> < 0"
  by (simp add: from_string_def from_string_try_def box_parts_negative ints_of_negative
      del: ints_of.simps)


section \<open>Properties of the spacing reconstructor\<close>

lemma py_max_Max: "vs \<noteq> [] \<Longrightarrow> py_max vs = Inr (Max (set vs))"
  by (cases vs) (simp_all add: Max.set_eq_fold del: set_simps)

lemma py_min_Min: "vs \<noteq> [] \<Longrightarrow> py_min vs = Inr (Min (set vs))"
  by (cases vs) (simp_all add: Min.set_eq_fold del: set_simps)

text \<open>
  Claim C7.  For two row-groups (never empty) and a positive line spacing, with
  \<open>gap_px = max(0, next_row.min_y - prev_row.max_bottom)\<close>, the number of blank lines is
  \<open>floor(gap_px / line_spacing)\<close>: exactly 1 for a gap equal to the line spacing, and 0 for
  a smaller gap.  (The assembler's line spacing is \<open>max(1.0, ...)\<close>, hence positive.)
\<close>

theorem blank_lines_floor:
  assumes "prev_row \<noteq> []" and "curr_row \<noteq> []" and "0 < line_spacing"
  shows "let gap_px = max 0 (real_of_int (Min (set (map f_y curr_row))
                        - Max (set (map (\<lambda>item. f_y item + f_height item) prev_row))))
         in compute_blank_lines_between prev_row curr_row line_spacing
              = Inr \<lfloor>gap_px / line_spacing\<rfloor>
          \<and> (gap_px = line_spacing
                \<longrightarrow> compute_blank_lines_between prev_row curr_row line_spacing = Inr 1)
          \<and> (gap_px < line_spacing
                \<longrightarrow> compute_blank_lines_between prev_row curr_row line_spacing = Inr 0)"
proof -
  define gap where "gap = max 0 (real_of_int (Min (set (map f_y curr_row))
                        - Max (set (map (\<lambda>item. f_y item + f_height item) prev_row))))"
  have gap0: "0 \<le> gap" by (simp add: gap_def)
  with assms(3) have q0: "0 \<le> gap / line_spacing" by simp
  then have fl0: "0 \<le> \<lfloor>gap / line_spacing\<rfloor>" by simp
  have mx: "py_max (map (\<lambda>item. f_y item + f_height item) prev_row)
              = Inr (Max (set (map (\<lambda>item. f_y item + f_height item) prev_row)))"
    using assms(1) by (intro py_max_Max) simp
  have mn: "py_min (map f_y curr_row) = Inr (Min (set (map f_y curr_row)))"
    using assms(2) by (intro py_min_Min) simp
  have main: "compute_blank_lines_between prev_row curr_row line_spacing
              = Inr \<lfloor>gap / line_spacing\<rfloor>"
    using assms fl0 unfolding compute_blank_lines_between_def mx mn gap_def
    by (simp add: Let_def del: set_map)
  have one: "gap = line_spacing \<Longrightarrow> \<lfloor>gap / line_spacing\<rfloor> = 1"
    using assms(3) by simp
  have zero: "gap < line_spacing \<Longrightarrow> \<lfloor>gap / line_spacing\<rfloor> = 0"
  proof -
    assume "gap < line_spacing"
    with assms(3) have "gap / line_spacing < 1" by simp
    with q0 show ?thesis by (simp add: floor_eq_iff)
  qed
  from main one zero show ?thesis unfolding Let_def gap_def [symmetric] by simp
qed

theorem blank_lines_floor_witness:
  "compute_blank_lines_between row_a row_b 75 = Inr 1
   \<and> compute_blank_lines_between row_a row_b 80 = Inr 1
   \<and> compute_blank_lines_between row_a row_b 81 = Inr 0"
  using blank_lines_floor [of row_a row_b 75] blank_lines_floor [of row_a row_b 80]
    blank_lines_floor [of row_a row_b 81]
  by (simp add: row_a_def row_b_def Let_def)


section \<open>Properties of the fragment clusterer\<close>

lemma truncate_with_y_mid: "fragment.truncate (with_y_mid frag) = frag"
  by (simp add: with_y_mid_def fragment.truncate_def)

lemma group_step_mset:
  assumes "group_step t (gs, cur, mid) item = (gs', cur', mid')" and "cur = [] \<or> mid \<noteq> None"
  shows "mset (concat gs') + mset cur' = mset (concat gs) + mset cur + {#item#}"
  using assms by (auto simp: Let_def split: option.splits if_splits)

lemma group_step_nonempty:
  assumes "group_step t (gs, cur, mid) item = (gs', cur', mid')" and "[] \<notin> set gs"
  shows "[] \<notin> set gs' \<and> cur' \<noteq> [] \<and> mid' \<noteq> None"
proof -
  have "cur \<noteq> [] \<Longrightarrow> sort_key f_x cur \<noteq> []"
    by (metis length_sort length_0_conv)
  with assms show ?thesis
    by (auto simp: Let_def split: option.splits if_splits)
qed

lemma foldl_group_step:
  assumes "foldl (group_step t) (gs, cur, mid) items = (gs', cur', mid')" and "[] \<notin> set gs"
    and "cur = [] \<or> mid \<noteq> None"
  shows "mset (concat gs') + mset cur' = mset (concat gs) + mset cur + mset items
         \<and> [] \<notin> set gs'"
  using assms
proof (induction items arbitrary: gs cur mid)
  case Nil
  then show ?case by simp
next
  case (Cons item items)
  obtain gs1 cur1 mid1 where step: "group_step t (gs, cur, mid) item = (gs1, cur1, mid1)"
    by (metis prod_cases3)
  from step Cons.prems(2) have ne: "[] \<notin> set gs1" and inv: "cur1 = [] \<or> mid1 \<noteq> None"
    using group_step_nonempty by blast+
  from Cons.prems(1) step
  have "foldl (group_step t) (gs1, cur1, mid1) items = (gs', cur', mid')" by simp
  from Cons.IH [OF this ne inv] group_step_mset [OF step Cons.prems(3)] show ?case by simp
qed

text \<open>
  Claim C10.  The row-groups partition the input: the concatenation of the groups is a
  permutation of the input fragments (each carrying the key \<^verbatim>\<open>y_mid\<close> the clusterer gave
  it, and equal to the input once that key is dropped), so every fragment lies in exactly
  one group; and no group is empty.
\<close>

theorem groups_partition:
  "mset (concat (group_fragments_by_line fragments line_spacing ratio))
     = mset (map with_y_mid fragments)
   \<and> mset (map fragment.truncate (concat (group_fragments_by_line fragments line_spacing ratio)))
     = mset fragments
   \<and> [] \<notin> set (group_fragments_by_line fragments line_spacing ratio)"
proof -
  let ?gs = "group_fragments_by_line fragments line_spacing ratio"
  have a: "mset (concat ?gs) = mset (map with_y_mid fragments) \<and> [] \<notin> set ?gs"
  proof (cases "fragments = []")
    case True
    then show ?thesis by (simp add: group_fragments_by_line_def)
  next
    case False
    let ?t = "max 1 (ratio * line_spacing)"
    let ?xs = "sort_key f_y_mid (map with_y_mid fragments)"
    obtain gs' cur' mid' where f: "foldl (group_step ?t) ([], [], None) ?xs = (gs', cur', mid')"
      by (metis prod_cases3)
    from foldl_group_step [OF f]
    have inv: "mset (concat gs') + mset cur' = mset ?xs" "[] \<notin> set gs'" by simp_all
    have gs: "?gs = (if cur' \<noteq> [] then gs' @ [sort_key f_x cur'] else gs')"
      using False f by (simp add: group_fragments_by_line_def Let_def)
    have "cur' \<noteq> [] \<Longrightarrow> sort_key f_x cur' \<noteq> []"
      by (metis length_sort length_0_conv)
    with inv gs show ?thesis by (auto simp del: mset_map)
  qed
  then have "mset (map fragment.truncate (concat ?gs))
               = mset (map fragment.truncate (map with_y_mid fragments))"
    by (metis mset_map)
  also have "\<dots> = mset fragments"
    by (simp add: truncate_with_y_mid comp_def del: mset_map)
  finally show ?thesis using a by blast
qed

lemma example_mids:
  "f_y_mid (with_y_mid frag_a) = 1" "f_y_mid (with_y_mid frag_b) = 4"
  "f_y_mid (with_y_mid frag_c) = 7" "f_y_mid (with_y_mid frag_d) = 2"
  by (simp_all add: with_y_mid_def frag_a_def frag_b_def frag_c_def frag_d_def)

lemma example_xs:
  "f_x (with_y_mid frag_a) = 0" "f_x (with_y_mid frag_b) = 20"
  "f_x (with_y_mid frag_c) = 40" "f_x (with_y_mid frag_d) = 60"
  by (simp_all add: with_y_mid_def frag_a_def frag_b_def frag_c_def frag_d_def)

lemma example_three_fragments:
  "group_fragments_by_line [frag_a, frag_b, frag_c] 10 same_line_threshold_ratio
     = [[with_y_mid frag_a, with_y_mid frag_b], [with_y_mid frag_c]]"
  by (simp add: group_fragments_by_line_def same_line_threshold_ratio_def example_mids
      example_xs Let_def)

lemma example_floor_fragments:
  "group_fragments_by_line [frag_a, frag_d] 2 same_line_threshold_ratio
     = [[with_y_mid frag_a, with_y_mid frag_d]]"
  by (simp add: group_fragments_by_line_def same_line_threshold_ratio_def example_mids
      example_xs Let_def)

theorem groups_partition_witness:
  "mset (concat (group_fragments_by_line [frag_a, frag_b, frag_c] 10 same_line_threshold_ratio))
     = {#with_y_mid frag_a, with_y_mid frag_b, with_y_mid frag_c#}
   \<and> [] \<notin> set (group_fragments_by_line [frag_a, frag_b, frag_c] 10 same_line_threshold_ratio)"
  using groups_partition [of "[frag_a, frag_b, frag_c]" 10 same_line_threshold_ratio]
  by (simp add: add.commute add.left_commute)

text \<open>
  Claim C6 as stated fails twice.  With a line spacing of 10 the midpoints 4 and 7 differ by
  3, which is at most \<open>0.4 * 10\<close>, and the fragments are in different row-groups: the
  third fragment is compared with the mean 2.5 of the first two.  With a line spacing of 2
  the midpoints 1 and 2 differ by more than \<open>0.4 * 2\<close>, and the fragments are in the same
  row-group: the threshold is never below 1.
\<close>

theorem same_row_threshold_counterexample:
  "group_fragments_by_line [frag_a, frag_b, frag_c] 10 same_line_threshold_ratio
     = [[with_y_mid frag_a, with_y_mid frag_b], [with_y_mid frag_c]]
   \<and> \<bar>f_y_mid (with_y_mid frag_c) - f_y_mid (with_y_mid frag_b)\<bar>
       \<le> same_line_threshold_ratio * 10
   \<and> group_fragments_by_line [frag_a, frag_d] 2 same_line_threshold_ratio
     = [[with_y_mid frag_a, with_y_mid frag_d]]
   \<and> same_line_threshold_ratio * 2
       < \<bar>f_y_mid (with_y_mid frag_d) - f_y_mid (with_y_mid frag_a)\<bar>"
  unfolding example_three_fragments example_floor_fragments
  by (simp add: example_mids same_line_threshold_ratio_def)

lemma group_two:
  "(case foldl (group_step t) ([], [], None) [lo, hi] of
            (groups, current_group, current_mid) \<Rightarrow>
              if current_group \<noteq> [] then groups @ [sort_key f_x current_group] else groups)
     = (if \<bar>f_y_mid hi - f_y_mid lo\<bar> \<le> t then [sort_key f_x [lo, hi]] else [[lo], [hi]])"
  by (simp add: Let_def)

lemma running_mean:
  assumes "foldl (group_step t) ([], [], None) items = (gs, cur, mid)" and "items \<noteq> []"
  shows "cur \<noteq> [] \<and> mid = Some (sum_list (map f_y_mid cur) / real (length cur))"
  using assms
proof (induction items arbitrary: gs cur mid rule: rev_induct)
  case Nil
  then show ?case by simp
next
  case (snoc item items)
  obtain gs0 cur0 mid0 where f: "foldl (group_step t) ([], [], None) items = (gs0, cur0, mid0)"
    by (metis prod_cases3)
  with snoc.prems(1) have step: "group_step t (gs0, cur0, mid0) item = (gs, cur, mid)" by simp
  show ?case
  proof (cases "items = []")
    case True
    with f step show ?thesis by auto
  next
    case False
    from snoc.IH [OF f False]
    have ne: "cur0 \<noteq> []"
      and m: "mid0 = Some (sum_list (map f_y_mid cur0) / real (length cur0))" by simp_all
    from ne have len: "real (length cur0) \<noteq> 0" by simp
    show ?thesis
    proof (cases "\<bar>f_y_mid item - sum_list (map f_y_mid cur0) / real (length cur0)\<bar> \<le> t")
      case True
      with step ne m show ?thesis by (auto simp: Let_def add.commute)
    next
      case False
      with step ne m show ?thesis by auto
    qed
  qed
qed

lemma group_step_mean:
  assumes "cur \<noteq> []"
  shows "group_step t (gs, cur, Some m) item =
           (if \<bar>f_y_mid item - m\<bar> \<le> t
            then (gs, cur @ [item],
                  Some ((m * real (length cur) + f_y_mid item) / real (length (cur @ [item]))))
            else (gs @ [sort_key f_x cur], [item], Some (f_y_mid item)))"
  using assms by (simp add: Let_def)

lemma two_fragments_rows:
  "let thr = max 1 (same_line_threshold_ratio * line_spacing);
       first = (if f_y_mid (with_y_mid a) \<le> f_y_mid (with_y_mid b)
                then with_y_mid a else with_y_mid b);
       second = (if f_y_mid (with_y_mid a) \<le> f_y_mid (with_y_mid b)
                 then with_y_mid b else with_y_mid a);
       gs = group_fragments_by_line [a, b] line_spacing same_line_threshold_ratio
   in (\<bar>f_y_mid second - f_y_mid first\<bar> \<le> thr \<longrightarrow> gs = [sort_key f_x [first, second]])
    \<and> (thr < \<bar>f_y_mid second - f_y_mid first\<bar> \<longrightarrow> gs = [[first], [second]])
    \<and> (5 / 2 \<le> line_spacing \<longrightarrow> thr = 4 / 10 * line_spacing)"
proof -
  define thr where "thr = max 1 (same_line_threshold_ratio * line_spacing)"
  define ma where "ma = f_y_mid (with_y_mid a)"
  define mb where "mb = f_y_mid (with_y_mid b)"
  define gs where "gs = group_fragments_by_line [a, b] line_spacing same_line_threshold_ratio"
  have c3: "5 / 2 \<le> line_spacing \<Longrightarrow> thr = 4 / 10 * line_spacing"
    by (simp add: thr_def same_line_threshold_ratio_def)
  show ?thesis
  proof (cases "ma \<le> mb")
    case True
    then have srt: "sort_key f_y_mid (map with_y_mid [a, b]) = [with_y_mid a, with_y_mid b]"
      by (simp add: ma_def mb_def)
    from True have le: "f_y_mid (with_y_mid a) \<le> f_y_mid (with_y_mid b)"
      by (simp add: ma_def mb_def)
    have g: "gs = (if \<bar>mb - ma\<bar> \<le> thr then [sort_key f_x [with_y_mid a, with_y_mid b]]
                   else [[with_y_mid a], [with_y_mid b]])"
      unfolding gs_def group_fragments_by_line_def Let_def srt thr_def ma_def mb_def
      using group_two by simp
    have 1: "\<bar>mb - ma\<bar> \<le> thr \<Longrightarrow> gs = [sort_key f_x [with_y_mid a, with_y_mid b]]"
      by (simp only: g if_True)
    have 2: "thr < \<bar>mb - ma\<bar> \<Longrightarrow> gs = [[with_y_mid a], [with_y_mid b]]"
      using g by (simp only: not_le [symmetric] if_False)
    from 1 2 c3 show ?thesis
      unfolding ma_def mb_def Let_def thr_def [symmetric] gs_def [symmetric]
      by (simp only: le if_True) blast
  next
    case False
    then have le: "f_y_mid (with_y_mid b) \<le> f_y_mid (with_y_mid a)"
      by (simp add: ma_def mb_def)
    from False
    have srt: "sort_key f_y_mid (map with_y_mid [a, b]) = [with_y_mid b, with_y_mid a]"
      by (simp add: ma_def mb_def)
    have g: "gs = (if \<bar>ma - mb\<bar> \<le> thr then [sort_key f_x [with_y_mid b, with_y_mid a]]
                   else [[with_y_mid b], [with_y_mid a]])"
      unfolding gs_def group_fragments_by_line_def Let_def srt thr_def ma_def mb_def
      using group_two by simp
    have 1: "\<bar>ma - mb\<bar> \<le> thr \<Longrightarrow> gs = [sort_key f_x [with_y_mid b, with_y_mid a]]"
      by (simp only: g if_True)
    have 2: "thr < \<bar>ma - mb\<bar> \<Longrightarrow> gs = [[with_y_mid b], [with_y_mid a]]"
      using g by (simp only: not_le [symmetric] if_False)
    from False have nle: "\<not> f_y_mid (with_y_mid a) \<le> f_y_mid (with_y_mid b)"
      by (simp add: ma_def mb_def)
    from 1 2 c3 show ?thesis
      unfolding ma_def mb_def Let_def thr_def [symmetric] gs_def [symmetric]
      by (simp only: nle if_False) blast
  qed
qed

text \<open>
  Claim C6, amended.  The threshold is \<open>max(1.0, 0.4 * line_spacing)\<close>, which is
  \<open>0.4 * line_spacing\<close> from a line spacing of 2.5 on.  For an input of two fragments: they
  are placed in one row-group when their vertical midpoints differ by at most the
  threshold, and in two row-groups, the upper one first, when they differ by more.  In
  general, after any fragments the clusterer has processed, the centre it holds is the
  arithmetic mean of the midpoints of the current row-group, and the next fragment joins
  that row-group when its midpoint differs from this mean by at most the threshold, and
  starts a new row-group otherwise.
\<close>

theorem same_row_by_running_mean:
  "(let thr = max 1 (same_line_threshold_ratio * line_spacing);
        first = (if f_y_mid (with_y_mid a) \<le> f_y_mid (with_y_mid b)
                 then with_y_mid a else with_y_mid b);
        second = (if f_y_mid (with_y_mid a) \<le> f_y_mid (with_y_mid b)
                  then with_y_mid b else with_y_mid a);
        gs = group_fragments_by_line [a, b] line_spacing same_line_threshold_ratio
    in (\<bar>f_y_mid second - f_y_mid first\<bar> \<le> thr \<longrightarrow> gs = [sort_key f_x [first, second]])
     \<and> (thr < \<bar>f_y_mid second - f_y_mid first\<bar> \<longrightarrow> gs = [[first], [second]])
     \<and> (5 / 2 \<le> line_spacing \<longrightarrow> thr = 4 / 10 * line_spacing))
   \<and> (items \<noteq> [] \<and> foldl (group_step t) ([], [], None) items = (groups, current, mid) \<longrightarrow>
        current \<noteq> []
      \<and> mid = Some (sum_list (map f_y_mid current) / real (length current))
      \<and> group_step t (groups, current, mid) item =
          (if \<bar>f_y_mid item - sum_list (map f_y_mid current) / real (length current)\<bar> \<le> t
           then (groups, current @ [item],
                 Some (sum_list (map f_y_mid (current @ [item]))
                       / real (length (current @ [item]))))
           else (groups @ [sort_key f_x current], [item], Some (f_y_mid item))))"
proof (intro conjI impI)
  show "let thr = max 1 (same_line_threshold_ratio * line_spacing);
            first = (if f_y_mid (with_y_mid a) \<le> f_y_mid (with_y_mid b)
                     then with_y_mid a else with_y_mid b);
            second = (if f_y_mid (with_y_mid a) \<le> f_y_mid (with_y_mid b)
                      then with_y_mid b else with_y_mid a);
            gs = group_fragments_by_line [a, b] line_spacing same_line_threshold_ratio
        in (\<bar>f_y_mid second - f_y_mid first\<bar> \<le> thr \<longrightarrow> gs = [sort_key f_x [first, second]])
         \<and> (thr < \<bar>f_y_mid second - f_y_mid first\<bar> \<longrightarrow> gs = [[first], [second]])
         \<and> (5 / 2 \<le> line_spacing \<longrightarrow> thr = 4 / 10 * line_spacing)"
    by (rule two_fragments_rows)
next
  assume h: "items \<noteq> [] \<and> foldl (group_step t) ([], [], None) items = (groups, current, mid)"
  then have f: "foldl (group_step t) ([], [], None) items = (groups, current, mid)"
    and ne: "items \<noteq> []" by simp_all
  from running_mean [OF f ne]
  show c: "current \<noteq> []"
    and m: "mid = Some (sum_list (map f_y_mid current) / real (length current))" by simp_all
  from c have "sum_list (map f_y_mid current) / real (length current) * real (length current)
                 = sum_list (map f_y_mid current)" by simp
  then show "group_step t (groups, current, mid) item =
          (if \<bar>f_y_mid item - sum_list (map f_y_mid current) / real (length current)\<bar> \<le> t
           then (groups, current @ [item],
                 Some (sum_list (map f_y_mid (current @ [item]))
                       / real (length (current @ [item]))))
           else (groups @ [sort_key f_x current], [item], Some (f_y_mid item)))"
    unfolding m group_step_mean [OF c] by (simp add: add.commute)
qed

theorem same_row_by_running_mean_witness:
  "group_fragments_by_line [frag_a, frag_d] 10 same_line_threshold_ratio
     = [[with_y_mid frag_a, with_y_mid frag_d]]
   \<and> group_fragments_by_line [frag_c, frag_a] 10 same_line_threshold_ratio
     = [[with_y_mid frag_a], [with_y_mid frag_c]]
   \<and> group_step 4 ([], [with_y_mid frag_a, with_y_mid frag_b], Some (5 / 2)) (with_y_mid frag_c)
     = ([[with_y_mid frag_a, with_y_mid frag_b]], [with_y_mid frag_c], Some 7)"
proof -
  have f: "foldl (group_step 4) ([], [], None) [with_y_mid frag_a, with_y_mid frag_b]
             = ([], [with_y_mid frag_a, with_y_mid frag_b], Some (5 / 2))"
    by (simp add: example_mids Let_def)
  from same_row_by_running_mean [where a = frag_a and b = frag_d and line_spacing = 10
      and t = 4 and items = "[with_y_mid frag_a, with_y_mid frag_b]" and groups = "[]"
      and current = "[with_y_mid frag_a, with_y_mid frag_b]" and mid = "Some (5 / 2)"
      and item = "with_y_mid frag_c"]
    same_row_by_running_mean [where a = frag_c and b = frag_a and line_spacing = 10
      and items = "[]"]
    f
  show ?thesis
    by (simp add: Let_def example_mids example_xs same_line_threshold_ratio_def)
qed

section \<open>Properties of the layout constant estimator\<close>

lemma denominator_nonzero: "real_of_int k + 1 / 10 ^ 6 \<noteq> 0"
proof (cases "0 \<le> k")
  case True
  then have "0 \<le> real_of_int k" by simp
  moreover have "(0::real) < 1 / 10 ^ 6" by simp
  ultimately show ?thesis by linarith
next
  case False
  then have "k \<le> - 1" by simp
  then have "real_of_int k \<le> - 1" by (metis of_int_le_iff of_int_minus of_int_1)
  moreover have "(1::real) / 10 ^ 6 < 1" by simp
  ultimately show ?thesis by linarith
qed

lemma blend_eq:
  "blend current prev n prev_n sparse =
     Inr (if prev > 0 then
            (if sparse \<or> current \<le> 0 then prev
             else min (7 / 10) (real_of_int n / (real_of_int (n + prev_n) + 1 / 10 ^ 6)) * current
                  + (1 - min (7 / 10) (real_of_int n / (real_of_int (n + prev_n) + 1 / 10 ^ 6)))
                    * prev)
          else current)"
proof -
  have d: "py_div (real_of_int n) (real_of_int (n + prev_n) + 1 / 10 ^ 6)
             = Inr (real_of_int n / (real_of_int (n + prev_n) + 1 / 10 ^ 6))"
    unfolding py_div_def using denominator_nonzero [of "n + prev_n"] by (simp only: if_False)
  show ?thesis
  proof (cases "0 < prev")
    case True
    note p = this
    show ?thesis
    proof (cases "sparse \<or> current \<le> 0")
      case True
      with p show ?thesis unfolding blend_def by (simp only: if_True)
    next
      case False
      with p show ?thesis unfolding blend_def d py_bind.simps Let_def
        by (simp only: if_True if_False)
    qed
  next
    case False
    then show ?thesis unfolding blend_def by (simp only: if_False)
  qed
qed

lemma estimate_unfold:
  assumes s: "collect_samples regions = Inr (chs, lhs)"
    and h: "read_history bi (load_constants st) = Inr (pch, pm, pcn, pln)"
    and bc: "blend (current_char_height chs) pch (int (length chs)) pcn (length chs < 5)
               = Inr bc"
    and bm: "blend (current_multiplier chs lhs) pm (int (length lhs)) pln (length lhs < 3)
               = Inr bm"
  shows "estimate_layout_constants bi now io st regions =
     Inr ((if bc \<le> 0 then 32 else bc,
           max (12 / 10) (min 2 (if bm \<le> 0 then 3 / 2 else bm)),
           (int (length chs), int (length lhs))),
          save_constants io st
            (JDict [(py_str ''char_height'',
                       JFloat (py_round_to (if bc \<le> 0 then 32 else bc) 2)),
                    (py_str ''line_height_multiplier'',
                       JFloat (py_round_to
                                 (max (12 / 10) (min 2 (if bm \<le> 0 then 3 / 2 else bm))) 3)),
                    (py_str ''sample_counts'',
                       JDict [(py_str ''char'', JInt (min 1000 (pcn + int (length chs)))),
                              (py_str ''line'', JInt (min 1000 (pln + int (length lhs))))]),
                    (py_str ''updated_at'', JInt now)]))"
  unfolding estimate_layout_constants_def s h
  by (simp add: Let_def bc bm)

lemma estimate_returns_only:
  assumes "estimate_layout_constants bi now io st regions = Inr r"
  shows "(\<exists>chs lhs. collect_samples regions = Inr (chs, lhs))
       \<and> (\<exists>pch pm pcn pln. read_history bi (load_constants st) = Inr (pch, pm, pcn, pln))"
proof (cases "collect_samples regions")
  case (Inl e)
  with assms show ?thesis by (simp add: estimate_layout_constants_def)
next
  case (Inr s)
  obtain chs lhs where s: "s = (chs, lhs)" by (cases s)
  show ?thesis
  proof (cases "read_history bi (load_constants st)")
    case (Inl e)
    with assms Inr s show ?thesis by (simp add: estimate_layout_constants_def)
  next
    case Inr2: (Inr hh)
    obtain pch pm pcn pln where "hh = (pch, pm, pcn, pln)" by (cases hh)
    with Inr Inr2 s show ?thesis by simp
  qed
qed

lemma estimate_value:
  assumes s: "collect_samples regions = Inr (chs, lhs)"
    and h: "read_history bi (load_constants st) = Inr (pch, pm, pcn, pln)"
  shows "\<exists>bc bm st'.
           blend (current_char_height chs) pch (int (length chs)) pcn (length chs < 5) = Inr bc
         \<and> blend (current_multiplier chs lhs) pm (int (length lhs)) pln (length lhs < 3) = Inr bm
         \<and> estimate_layout_constants bi now io st regions =
             Inr ((if bc \<le> 0 then 32 else bc,
                   max (12 / 10) (min 2 (if bm \<le> 0 then 3 / 2 else bm)),
                   (int (length chs), int (length lhs))), st')"
proof -
  obtain bc where bc:
    "blend (current_char_height chs) pch (int (length chs)) pcn (length chs < 5) = Inr bc"
    using blend_eq by blast
  obtain bm where bm:
    "blend (current_multiplier chs lhs) pm (int (length lhs)) pln (length lhs < 3) = Inr bm"
    using blend_eq by blast
  from estimate_unfold [OF s h bc bm] bc bm show ?thesis by blast
qed

lemma history_empty: "read_history bi (load_constants None) = Inr (0, 0, 0, 0)"
  by (simp add: load_constants_def read_history_def py_or_def)

lemma key_lookups:
  "map_of [(py_str ''char_height'', a), (py_str ''line_height_multiplier'', b),
           (py_str ''sample_counts'', c), (py_str ''updated_at'', d)] (py_str ''char_height'')
     = Some a"
  "map_of [(py_str ''char_height'', a), (py_str ''line_height_multiplier'', b),
           (py_str ''sample_counts'', c), (py_str ''updated_at'', d)]
     (py_str ''line_height_multiplier'') = Some b"
  "map_of [(py_str ''char_height'', a), (py_str ''line_height_multiplier'', b),
           (py_str ''sample_counts'', c), (py_str ''updated_at'', d)] (py_str ''sample_counts'')
     = Some c"
  "map_of [(py_str ''char'', e), (py_str ''line'', f)] (py_str ''char'') = Some e"
  "map_of [(py_str ''char'', e), (py_str ''line'', f)] (py_str ''line'') = Some f"
  by (simp_all add: py_str_def)

lemma float_or_zero: "py_float bi (py_or (JFloat r) (JInt 0)) = Inr r"
  by (simp add: py_or_def)

lemma history_of_saved:
  "read_history bi
     (JDict [(py_str ''char_height'', JFloat a), (py_str ''line_height_multiplier'', JFloat b),
             (py_str ''sample_counts'', JDict [(py_str ''char'', JInt c), (py_str ''line'', JInt d)]),
             (py_str ''updated_at'', JInt t)])
   = Inr (a, b, c, d)"
  unfolding read_history_def py_get.simps key_lookups option.case py_bind.simps float_or_zero
    Let_def json.case py_int.simps
  by (rule refl)

text \<open>
  Claim C3.  Whatever the regions and the calibration store, a returned
  \<^verbatim>\<open>line_height_multiplier\<close> lies in \<open>[1.2, 2.0]\<close>; and the estimator returns whenever the
  sampling loop and the reading of the history raise nothing.
\<close>

theorem multiplier_clamped:
  "(\<forall>ch mul counts st'.
      estimate_layout_constants bi now io st regions = Inr ((ch, mul, counts), st')
      \<longrightarrow> 12 / 10 \<le> mul \<and> mul \<le> 2)
   \<and> ((\<exists>s. collect_samples regions = Inr s) \<and> (\<exists>h. read_history bi (load_constants st) = Inr h)
      \<longrightarrow> (\<exists>ch mul counts st'.
             estimate_layout_constants bi now io st regions = Inr ((ch, mul, counts), st')))"
proof (intro conjI allI impI)
  fix ch mul counts st'
  assume e: "estimate_layout_constants bi now io st regions = Inr ((ch, mul, counts), st')"
  from estimate_returns_only [OF e] obtain chs lhs pch pm pcn pln
    where s: "collect_samples regions = Inr (chs, lhs)"
      and h: "read_history bi (load_constants st) = Inr (pch, pm, pcn, pln)" by blast
  from estimate_value [OF s h, where now = now and io = io] e
  obtain bm where "mul = max (12 / 10) (min 2 (if bm \<le> 0 then 3 / 2 else bm))" by auto
  then show "12 / 10 \<le> mul" and "mul \<le> 2" by simp_all
next
  assume "(\<exists>s. collect_samples regions = Inr s)
        \<and> (\<exists>h. read_history bi (load_constants st) = Inr h)"
  then obtain chs lhs pch pm pcn pln
    where s: "collect_samples regions = Inr (chs, lhs)"
      and h: "read_history bi (load_constants st) = Inr (pch, pm, pcn, pln)"
    by (metis prod_cases4 surj_pair)
  from estimate_value [OF s h, where now = now and io = io]
  show "\<exists>ch mul counts st'.
          estimate_layout_constants bi now io st regions = Inr ((ch, mul, counts), st')"
    by blast
qed

text \<open>
  Claim C4.  Without a calibration store (the file is missing, unreadable or not JSON)
  the estimator returns; the character height is exactly 32.0 when the document yields
  fewer than 5 character-height samples, and the multiplier is exactly 1.5 when it yields
  fewer than 3 line-height samples.
\<close>

theorem cold_start_defaults:
  assumes "collect_samples regions = Inr (char_heights, line_heights)"
  shows "\<exists>ch mul st'.
           estimate_layout_constants bi now io None regions
             = Inr ((ch, mul, (int (length char_heights), int (length line_heights))), st')
         \<and> (length char_heights < 5 \<longrightarrow> ch = 32)
         \<and> (length line_heights < 3 \<longrightarrow> mul = 3 / 2)"
proof -
  have bc: "blend (current_char_height char_heights) 0 (int (length char_heights)) 0
              (length char_heights < 5) = Inr (current_char_height char_heights)"
    by (simp add: blend_def)
  have bm: "blend (current_multiplier char_heights line_heights) 0 (int (length line_heights)) 0
              (length line_heights < 3) = Inr (current_multiplier char_heights line_heights)"
    by (simp add: blend_def)
  note e = estimate_unfold [OF assms history_empty bc bm, where now = now and io = io]
  have c: "length char_heights < 5 \<Longrightarrow> current_char_height char_heights = 0"
    by (simp add: current_char_height_def)
  have m: "length line_heights < 3 \<Longrightarrow> current_multiplier char_heights line_heights = 0"
    by (simp add: current_multiplier_def current_line_height_def)
  from e c m show ?thesis by auto
qed

text \<open>
  Claim C5, amended.  When the history is positive and the current value is usable (not
  sparse, positive), the estimator blends \<open>weight * current + (1 - weight) * historical\<close>
  with \<open>weight = min(0.7, n / (n + prev_n + 0.000001))\<close>, for the character height (with
  the character counts) and for the multiplier (with the line counts) independently.  The
  returned character height is the blend (32.0 if the blend is not positive), the
  returned multiplier is the blend (1.5 if not positive) clamped to \<open>[1.2, 2.0]\<close>.
\<close>

theorem history_blend:
  assumes "collect_samples regions = Inr (chs, lhs)"
    and "read_history bi (load_constants st) = Inr (pch, pm, pcn, pln)"
  shows "\<exists>ch mul st'.
           estimate_layout_constants bi now io st regions
             = Inr ((ch, mul, (int (length chs), int (length lhs))), st')
         \<and> (0 < pch \<and> 5 \<le> length chs \<and> 0 < current_char_height chs \<longrightarrow>
              (let weight = min (7 / 10)
                              (real (length chs) / (real_of_int (int (length chs) + pcn) + 1 / 10 ^ 6));
                   blended = weight * current_char_height chs + (1 - weight) * pch
               in ch = (if blended \<le> 0 then 32 else blended)))
         \<and> (0 < pm \<and> 3 \<le> length lhs \<and> 0 < current_multiplier chs lhs \<longrightarrow>
              (let weight = min (7 / 10)
                              (real (length lhs) / (real_of_int (int (length lhs) + pln) + 1 / 10 ^ 6));
                   blended = weight * current_multiplier chs lhs + (1 - weight) * pm
               in mul = max (12 / 10) (min 2 (if blended \<le> 0 then 3 / 2 else blended))))"
proof -
  from estimate_value [OF assms, where now = now and io = io] obtain bc bm st'
    where bc: "blend (current_char_height chs) pch (int (length chs)) pcn (length chs < 5)
                 = Inr bc"
      and bm: "blend (current_multiplier chs lhs) pm (int (length lhs)) pln (length lhs < 3)
                 = Inr bm"
      and e: "estimate_layout_constants bi now io st regions =
                Inr ((if bc \<le> 0 then 32 else bc,
                      max (12 / 10) (min 2 (if bm \<le> 0 then 3 / 2 else bm)),
                      (int (length chs), int (length lhs))), st')"
    by blast
  have c: "0 < pch \<and> 5 \<le> length chs \<and> 0 < current_char_height chs \<Longrightarrow>
           bc = min (7 / 10) (real (length chs) / (real_of_int (int (length chs) + pcn) + 1 / 10 ^ 6))
                  * current_char_height chs
                + (1 - min (7 / 10)
                         (real (length chs) / (real_of_int (int (length chs) + pcn) + 1 / 10 ^ 6)))
                  * pch"
    using bc unfolding blend_eq by (simp del: of_int_add)
  have m: "0 < pm \<and> 3 \<le> length lhs \<and> 0 < current_multiplier chs lhs \<Longrightarrow>
           bm = min (7 / 10) (real (length lhs) / (real_of_int (int (length lhs) + pln) + 1 / 10 ^ 6))
                  * current_multiplier chs lhs
                + (1 - min (7 / 10)
                         (real (length lhs) / (real_of_int (int (length lhs) + pln) + 1 / 10 ^ 6)))
                  * pm"
    using bm unfolding blend_eq by (simp del: of_int_add)
  from e c m show ?thesis unfolding Let_def by blast
qed

text \<open>
  Claim C8, amended.  After a run whose write succeeds, the store holds the counts
  \<open>min(1000, previous + current)\<close>, for the characters and for the lines: the next run
  reads exactly these.  They never exceed 1000, and they are not below the previous
  counts when those were at most 1000 (as every count the estimator wrote is).  A run
  whose write fails still returns: the store stays as it was when the file cannot be
  opened, and holds no history when the write fails after the file was truncated.
\<close>

theorem sample_counts_saturate:
  assumes "collect_samples regions = Inr (chs, lhs)"
    and "read_history bi (load_constants st) = Inr (pch, pm, pcn, pln)"
  shows "(\<exists>r st' pch' pm'.
            estimate_layout_constants bi now Saved st regions = Inr (r, st')
          \<and> read_history bi (load_constants st')
              = Inr (pch', pm', min 1000 (pcn + int (length chs)),
                     min 1000 (pln + int (length lhs)))
          \<and> min 1000 (pcn + int (length chs)) \<le> 1000
          \<and> min 1000 (pln + int (length lhs)) \<le> 1000
          \<and> (pcn \<le> 1000 \<longrightarrow> pcn \<le> min 1000 (pcn + int (length chs)))
          \<and> (pln \<le> 1000 \<longrightarrow> pln \<le> min 1000 (pln + int (length lhs))))
       \<and> (\<exists>r. estimate_layout_constants bi now OpenFailed st regions = Inr (r, st))
       \<and> (\<exists>r. estimate_layout_constants bi now WriteFailed st regions = Inr (r, None))"
proof -
  obtain bc where bc:
    "blend (current_char_height chs) pch (int (length chs)) pcn (length chs < 5) = Inr bc"
    using blend_eq by blast
  obtain bm where bm:
    "blend (current_multiplier chs lhs) pm (int (length lhs)) pln (length lhs < 3) = Inr bm"
    using blend_eq by blast
  note e = estimate_unfold [OF assms bc bm, where now = now and io = Saved]
  have "read_history bi (load_constants (save_constants Saved st
          (JDict [(py_str ''char_height'',
                       JFloat (py_round_to (if bc \<le> 0 then 32 else bc) 2)),
                    (py_str ''line_height_multiplier'',
                       JFloat (py_round_to
                                 (max (12 / 10) (min 2 (if bm \<le> 0 then 3 / 2 else bm))) 3)),
                    (py_str ''sample_counts'',
                       JDict [(py_str ''char'', JInt (min 1000 (pcn + int (length chs)))),
                              (py_str ''line'', JInt (min 1000 (pln + int (length lhs))))]),
                    (py_str ''updated_at'', JInt now)])))
        = Inr (py_round_to (if bc \<le> 0 then 32 else bc) 2,
               py_round_to (max (12 / 10) (min 2 (if bm \<le> 0 then 3 / 2 else bm))) 3,
               min 1000 (pcn + int (length chs)), min 1000 (pln + int (length lhs)))"
    unfolding save_constants_def load_constants_def save_outcome.case option.case
    by (rule history_of_saved)
  with e have saved: "\<exists>r st' pch' pm'.
            estimate_layout_constants bi now Saved st regions = Inr (r, st')
          \<and> read_history bi (load_constants st')
              = Inr (pch', pm', min 1000 (pcn + int (length chs)),
                     min 1000 (pln + int (length lhs)))
          \<and> min 1000 (pcn + int (length chs)) \<le> 1000
          \<and> min 1000 (pln + int (length lhs)) \<le> 1000
          \<and> (pcn \<le> 1000 \<longrightarrow> pcn \<le> min 1000 (pcn + int (length chs)))
          \<and> (pln \<le> 1000 \<longrightarrow> pln \<le> min 1000 (pln + int (length lhs)))"
    by (intro exI conjI) (assumption, assumption, simp_all)
  have opened: "\<exists>r. estimate_layout_constants bi now OpenFailed st regions = Inr (r, st)"
    using estimate_unfold [OF assms bc bm, where now = now and io = OpenFailed]
    by (simp add: save_constants_def)
  have written: "\<exists>r. estimate_layout_constants bi now WriteFailed st regions = Inr (r, None)"
    using estimate_unfold [OF assms bc bm, where now = now and io = WriteFailed]
    by (simp add: save_constants_def)
  from saved opened written show ?thesis by blast
qed


subsection \<open>The estimator on the example inputs\<close>

lemma cjk_word_sample: "word_sample cjk_word = Inr [40]"
  by (simp add: word_sample_def cjk_word_def contains_cjk_def is_cjk_def)

lemma bare_line_samples: "line_samples bare_line = Inr ([], [60])"
  by (simp add: line_samples_def bare_line_def line_height_sample_def)

lemma cjk_line_samples: "line_samples cjk_line = Inr ([40, 40, 40, 40, 40], [60])"
  by (simp add: line_samples_def cjk_line_def bare_line_def line_height_sample_def
      cjk_word_sample)

lemma bare_region_samples: "collect_samples [bare_region] = Inr ([], [60])"
  by (simp add: collect_samples_def bare_region_def bare_line_samples)

lemma cjk_region_samples:
  "collect_samples [cjk_region] = Inr ([40, 40, 40, 40, 40], [60, 60, 60])"
  by (simp add: collect_samples_def cjk_region_def bare_line_samples cjk_line_samples)

lemma history_store_read:
  "read_history bi (load_constants (Some history_store)) = Inr (30, 3 / 2, 5, 3)"
  unfolding load_constants_def option.case history_store_def by (rule history_of_saved)

lemma cjk_current_char_height: "current_char_height [40, 40, 40, 40, 40] = 40"
  by (simp add: current_char_height_def robust_median_def median_def)

lemma cjk_blend:
  "blend 40 30 5 5 False = Inr (350000030 / 10000001)"
  unfolding blend_eq by simp

theorem multiplier_clamped_witness:
  "\<exists>ch mul counts st'.
     estimate_layout_constants ascii_builtins 0 Saved None [bare_region]
       = Inr ((ch, mul, counts), st')
     \<and> 12 / 10 \<le> mul \<and> mul \<le> 2"
  using multiplier_clamped [of ascii_builtins 0 Saved None "[bare_region]"]
    bare_region_samples history_empty [of ascii_builtins]
  by metis

theorem cold_start_defaults_witness:
  "\<exists>st'. estimate_layout_constants ascii_builtins 0 Saved None [bare_region]
            = Inr ((32, 3 / 2, (0, 1)), st')"
  using cold_start_defaults [OF bare_region_samples, of ascii_builtins 0 Saved]
  by auto

theorem history_blend_witness:
  "\<exists>mul st'.
     estimate_layout_constants ascii_builtins 0 Saved (Some history_store) [cjk_region]
       = Inr ((350000030 / 10000001, mul, (5, 3)), st')"
  using history_blend [OF cjk_region_samples history_store_read, of ascii_builtins 0 Saved]
  by (auto simp: Let_def cjk_current_char_height)

text \<open>
  Claim C5 as stated fails: with five current samples of median 40 and a history of five
  samples at 30, the weight of the claim is 0.5 and its blend 35; the estimator divides by
  \<open>10.000001\<close> and returns a character height just below 35.
\<close>

theorem blend_weight_counterexample:
  "map_sum id (\<lambda>r. fst (fst r))
     (estimate_layout_constants ascii_builtins 0 Saved (Some history_store) [cjk_region])
     = Inr (350000030 / 10000001)
   \<and> current_char_height [40, 40, 40, 40, 40] = 40
   \<and> spec_blend 40 30 5 5 = 35"
proof -
  obtain bm where bm:
    "blend (current_multiplier [40, 40, 40, 40, 40] [60, 60, 60]) (3 / 2)
       (int (length [60, 60, 60 :: real])) 3 (length [60, 60, 60 :: real] < 3) = Inr bm"
    using blend_eq by blast
  have bc: "blend (current_char_height [40, 40, 40, 40, 40]) 30
              (int (length [40, 40, 40, 40, 40 :: real])) 5
              (length [40, 40, 40, 40, 40 :: real] < 5) = Inr (350000030 / 10000001)"
    using cjk_blend by (simp add: cjk_current_char_height)
  from estimate_unfold [OF cjk_region_samples history_store_read bc bm,
      where now = 0 and io = Saved and bi = ascii_builtins]
  show ?thesis by (simp add: cjk_current_char_height spec_blend_def)
qed

lemma near_full_store_read:
  "read_history bi (load_constants (Some near_full_store)) = Inr (30, 3 / 2, 998, 999)"
  unfolding load_constants_def option.case near_full_store_def by (rule history_of_saved)

theorem sample_counts_saturate_witness:
  "(\<exists>r st' a b.
      estimate_layout_constants ascii_builtins 0 Saved (Some near_full_store) [cjk_region]
        = Inr (r, st')
      \<and> read_history ascii_builtins (load_constants st') = Inr (a, b, 1000, 1000))
   \<and> (\<exists>r. estimate_layout_constants ascii_builtins 0 OpenFailed (Some near_full_store)
              [cjk_region] = Inr (r, Some near_full_store))
   \<and> (\<exists>r. estimate_layout_constants ascii_builtins 0 WriteFailed (Some near_full_store)
              [cjk_region] = Inr (r, None))"
  using sample_counts_saturate [OF cjk_region_samples near_full_store_read,
      where now = 0 and bi = ascii_builtins]
  by auto

text \<open>
  Claim C8 as stated fails for a run whose write fails.  The store holds the counts 5 and
  3 and the document yields 5 and 3 samples; the write fails after the file was
  truncated, \<^verbatim>\<open>_save_constants\<close> swallows the \<^verbatim>\<open>OSError\<close>, and the estimator returns.  The
  store then holds no history: the next run reads the counts 0 and 0, which are neither
  \<open>min(1000, 5 + 5)\<close> and \<open>min(1000, 3 + 3)\<close> nor at least the previous counts.
\<close>

theorem write_failure_counterexample:
  "map_sum id snd
     (estimate_layout_constants ascii_builtins 0 WriteFailed (Some history_store) [cjk_region])
     = Inr None
   \<and> read_history ascii_builtins (load_constants (Some history_store)) = Inr (30, 3 / 2, 5, 3)
   \<and> collect_samples [cjk_region] = Inr ([40, 40, 40, 40, 40], [60, 60, 60])
   \<and> read_history ascii_builtins (load_constants None) = Inr (0, 0, 0, 0)"
proof -
  obtain bc where bc:
    "blend (current_char_height [40, 40, 40, 40, 40]) 30
       (int (length [40, 40, 40, 40, 40 :: real])) 5
       (length [40, 40, 40, 40, 40 :: real] < 5) = Inr bc"
    using blend_eq by blast
  obtain bm where bm:
    "blend (current_multiplier [40, 40, 40, 40, 40] [60, 60, 60]) (3 / 2)
       (int (length [60, 60, 60 :: real])) 3 (length [60, 60, 60 :: real] < 3) = Inr bm"
    using blend_eq by blast
  from estimate_unfold [OF cjk_region_samples history_store_read bc bm,
      where now = 0 and io = WriteFailed and bi = ascii_builtins]
  have "map_sum id snd
          (estimate_layout_constants ascii_builtins 0 WriteFailed (Some history_store)
             [cjk_region]) = Inr None"
    by (simp add: save_constants_def)
  then show ?thesis
    using history_store_read [of ascii_builtins] cjk_region_samples
      history_empty [of ascii_builtins]
    by simp
qed

subsection \<open>When the sampling loop returns\<close>

lemma py_map_returns:
  "(\<And>v. v \<in> set vs \<Longrightarrow> \<exists>w. f v = Inr w) \<Longrightarrow> \<exists>ws. py_map f vs = Inr ws"
proof (induction vs)
  case Nil
  then show ?case by simp
next
  case (Cons v vs)
  then obtain w ws where "f v = Inr w" "py_map f vs = Inr ws" by (meson list.set_intros)
  then show ?case by simp
qed

lemma cjk_loop_chars: "\<exists>b. cjk_loop (map (\<lambda>c. JStr [c]) s) = Inr b"
  by (induction s) auto

lemma word_sample_string: "word w = JStr s \<Longrightarrow> \<exists>r. word_sample w = Inr r"
  using cjk_loop_chars [of s] by (auto simp: word_sample_def contains_cjk_def)

text \<open>
  The sampling loop raises nothing on a document whose words are all strings, so on such
  a document the estimator returns whenever the store can be read.
\<close>

lemma collect_samples_strings:
  assumes "\<And>r l w. r \<in> set regions \<Longrightarrow> l \<in> set (lines r) \<Longrightarrow> w \<in> set (words l)
             \<Longrightarrow> \<exists>s. word w = JStr s"
  shows "\<exists>chs lhs. collect_samples regions = Inr (chs, lhs)"
proof -
  have "\<exists>p. line_samples l = Inr p" if "l \<in> set (concat (map lines regions))" for l
  proof -
    from that obtain r where "r \<in> set regions" "l \<in> set (lines r)" by auto
    with assms have "\<And>w. w \<in> set (words l) \<Longrightarrow> \<exists>c. word_sample w = Inr c"
      using word_sample_string by blast
    from py_map_returns [of "words l" word_sample, OF this]
    show ?thesis by (auto simp: line_samples_def)
  qed
  from py_map_returns [of "concat (map lines regions)" line_samples, OF this]
  show ?thesis by (auto simp: collect_samples_def)
qed

section \<open>Properties of the conversion entry point\<close>

lemma result_lookup: "map_of [(py_str ''Result'', v)] (py_str ''Result'') = Some v"
  by simp

text \<open>
  Claim C1 fails on the code.  For the document \<^verbatim>\<open>{"Result": null}\<close> the call
  \<^verbatim>\<open>result.get\<close> raises \<^verbatim>\<open>AttributeError\<close>, which the handler of
  \<^verbatim>\<open>convert_json_to_text\<close> does not catch: the exception leaves the function, and the
  store is untouched.
\<close>

theorem convert_null_result_raises:
  "convert_json_to_text bi now io st [(py_str ''Result'', JNull)] = (Inl AttributeError, st)"
  unfolding convert_json_to_text_def convert_try_def result_lookup
  by simp

theorem convert_null_result_raises_witness:
  "convert_json_to_text ascii_builtins 0 Saved None [(py_str ''Result'', JNull)]
     = (Inl AttributeError, None)"
  by (rule convert_null_result_raises)

text \<open>A document without the key \<^verbatim>\<open>Result\<close> yields the diagnostic string.\<close>

lemma convert_missing_result:
  "map_of ocr_json (py_str ''Result'') = None
     \<Longrightarrow> convert_json_to_text bi now io st ocr_json = (Inr (Failed ValueError), st)"
  by (simp add: convert_json_to_text_def convert_try_def)

text \<open>
  What leaves \<^verbatim>\<open>convert_json_to_text\<close> as an exception is never one of the three the
  handler names.
\<close>

lemma convert_handler:
  "fst (convert_json_to_text bi now io st ocr_json) = Inl e
     \<Longrightarrow> e \<noteq> KeyError \<and> e \<noteq> TypeError \<and> e \<noteq> ValueError"
  by (auto simp: convert_json_to_text_def split: prod.splits sum.splits if_splits)

end
